theory Spec2Isabelle
  imports Main "HOL-Library.Sublist"
begin

section \<open>JSON values and the Python operations the scripts apply to them\<close>

text \<open>
  The scripts of \<^verbatim>\<open>src/scripts\<close> are straight-line Python module bodies. Each builds a
  few dict literals, issues HTTP requests with the \<^verbatim>\<open>requests\<close> library and prints what
  comes back. What they receive is whatever \<^verbatim>\<open>Response.json()\<close> returns, so the values they
  handle are JSON values. A JSON object is kept as the list of its items in order (keys
  distinct, as in a Python dict); numbers are integers (the API has no fractional field).
\<close>

datatype json =
    JNull
  | JBool bool
  | JInt int
  | JStr string
  | JArr "json list"
  | JObj "(string \<times> json) list"

text \<open>The exceptions a script can die of. None of the scripts catches anything.\<close>

datatype pyerror =
    ConnectionError
  | JSONDecodeError
  | TypeError
  | KeyError string

text \<open>
  \<^verbatim>\<open>len(x)\<close>: defined on lists, dicts and strings; a TypeError on anything else. (A
  string is kept as its bytes, so the length of one with characters beyond ASCII is its
  number of bytes, not of code points; no property below is about the length of a string.)
\<close>

fun py_len :: "json \<Rightarrow> pyerror + nat" where
  "py_len (JArr xs) = Inr (length xs)"
| "py_len (JObj kvs) = Inr (length kvs)"
| "py_len (JStr s) = Inr (length s)"
| "py_len _ = Inl TypeError"

text \<open>
  \<^verbatim>\<open>for x in v\<close>: a list yields its items, a dict its keys, a string its characters (each a
  string of length one); anything else is not iterable.
\<close>

fun py_iter :: "json \<Rightarrow> pyerror + json list" where
  "py_iter (JArr xs) = Inr xs"
| "py_iter (JObj kvs) = Inr (map (\<lambda>kv. JStr (fst kv)) kvs)"
| "py_iter (JStr s) = Inr (map (\<lambda>c. JStr [c]) s)"
| "py_iter _ = Inl TypeError"

text \<open>
  \<^verbatim>\<open>v[key]\<close> with a string key: a dict looks the key up (KeyError when absent); a list or
  a string wants an integer index, and the other values are not subscriptable: TypeError.
\<close>

fun py_getitem :: "json \<Rightarrow> string \<Rightarrow> pyerror + json" where
  "py_getitem (JObj kvs) k = (case map_of kvs k of None \<Rightarrow> Inl (KeyError k) | Some v \<Rightarrow> Inr v)"
| "py_getitem _ k = Inl TypeError"

text \<open>\<^verbatim>\<open>s + v\<close> with \<^verbatim>\<open>s\<close> a string: concatenation when \<^verbatim>\<open>v\<close> is a string, TypeError otherwise.\<close>

fun py_add_str :: "string \<Rightarrow> json \<Rightarrow> pyerror + string" where
  "py_add_str s (JStr t) = Inr (s @ t)"
| "py_add_str s _ = Inl TypeError"

text \<open>
  \<^verbatim>\<open>f"{v}"\<close>: a string is inserted as it is. The text Python's \<^verbatim>\<open>str()\<close> gives any other
  value is the built-in's business, not the repository's, and is taken as the parameter
  \<open>repr\<close>.
\<close>

fun py_str :: "(json \<Rightarrow> string) \<Rightarrow> json \<Rightarrow> string" where
  "py_str repr (JStr s) = s"
| "py_str repr v = repr v"


section \<open>HTTP requests, responses and the console\<close>

datatype verb = GET | POST | PATCH | DELETE

text \<open>
  A request as the scripts pass it to \<^verbatim>\<open>requests\<close>: the verb is the function called
  (\<^verbatim>\<open>requests.get\<close>, \<^verbatim>\<open>.post\<close>, \<^verbatim>\<open>.patch\<close>, \<^verbatim>\<open>.delete\<close>), then the URL, the
  \<^verbatim>\<open>headers=\<close> dict and the \<^verbatim>\<open>json=\<close> argument when there is one.
\<close>

record request =
  rq_verb :: verb
  rq_url :: string
  rq_headers :: "(string \<times> string) list"
  rq_json :: "json option"

text \<open>
  The body of a response either parses as JSON, and then \<^verbatim>\<open>.json()\<close> returns that value,
  or it does not (an empty body, an HTML error page) and \<^verbatim>\<open>.json()\<close> raises.
\<close>

datatype content = Json json | Raw string

record response =
  status :: nat
  content :: content

text \<open>
  \<^verbatim>\<open>requests\<close> returns a response for every status code, 4xx and 5xx included; it raises
  only when no response arrives at all (\<open>Failure\<close>).
\<close>

datatype reply = Reply response | Failure

text \<open>The remote end: it answers a request and moves to its next state.\<close>

type_synonym 'st server = "'st \<Rightarrow> request \<Rightarrow> reply \<times> 'st"

text \<open>
  What a \<^verbatim>\<open>print\<close> writes, piece by piece: literal text, the decimal of a \<^verbatim>\<open>len\<close>, the
  \<^verbatim>\<open>str()\<close> of a value inside an f-string, the \<^verbatim>\<open>repr\<close> of a response's raw bytes.
\<close>

datatype piece = Lit string | Len nat | Str json | Bytes content

text \<open>
  Everything a script does that the outside can see, in the order it happens. \<open>Input p a\<close>
  is \<^verbatim>\<open>input(p)\<close> answered with \<open>a\<close>; \<open>Getpass p a\<close> is \<^verbatim>\<open>getpass.getpass(prompt=p)\<close>,
  which reads \<open>a\<close> without echo.
\<close>

datatype event =
    Input string string
  | Getpass string string
  | Http request reply
  | Print "piece list"


section \<open>Sequential programs\<close>

text \<open>
  A statement runs from a state of the remote end and yields its value or the exception
  that ended it, the events it produced, and the remote end's state afterwards.
\<close>

type_synonym ('a, 'st) run = "(pyerror + 'a) \<times> event list \<times> 'st"
type_synonym ('a, 'st) prog = "'st \<Rightarrow> ('a, 'st) run"

definition outcome :: "('a, 'st) run \<Rightarrow> pyerror + 'a" where
  "outcome r = fst r"

definition events :: "('a, 'st) run \<Rightarrow> event list" where
  "events r = fst (snd r)"

definition final :: "('a, 'st) run \<Rightarrow> 'st" where
  "final r = snd (snd r)"

text \<open>\<open>m; f\<close>: an exception in \<open>m\<close> ends the run, nothing after it is executed.\<close>

definition seq :: "('a, 'st) prog \<Rightarrow> ('a \<Rightarrow> ('b, 'st) prog) \<Rightarrow> ('b, 'st) prog" where
  "seq m f s =
     (case m s of
        (Inl e, evs, s') \<Rightarrow> (Inl e, evs, s')
      | (Inr a, evs, s') \<Rightarrow> (case f a s' of (r, evs', s'') \<Rightarrow> (r, evs @ evs', s'')))"

definition skip :: "(unit, 'st) prog" where
  "skip s = (Inr (), [], s)"

text \<open>An expression with no effect that may raise.\<close>

definition eval :: "pyerror + 'a \<Rightarrow> ('a, 'st) prog" where
  "eval r s = (r, [], s)"

definition emit :: "event \<Rightarrow> (unit, 'st) prog" where
  "emit ev s = (Inr (), [ev], s)"

text \<open>\<^verbatim>\<open>input(p)\<close> and \<^verbatim>\<open>getpass.getpass(prompt=p)\<close>, answered by the operator with \<open>a\<close>.\<close>

definition input :: "string \<Rightarrow> string \<Rightarrow> (string, 'st) prog" where
  "input p a s = (Inr a, [Input p a], s)"

definition getpass :: "string \<Rightarrow> string \<Rightarrow> (string, 'st) prog" where
  "getpass p a s = (Inr a, [Getpass p a], s)"

text \<open>One call of \<^verbatim>\<open>requests\<close>.\<close>

definition call :: "'st server \<Rightarrow> request \<Rightarrow> (response, 'st) prog" where
  "call srv rq s =
     (case srv s rq of
        (Failure, s') \<Rightarrow> (Inl ConnectionError, [Http rq Failure], s')
      | (Reply r, s') \<Rightarrow> (Inr r, [Http rq (Reply r)], s'))"

text \<open>\<^verbatim>\<open>r.json()\<close>\<close>

fun json_of :: "response \<Rightarrow> pyerror + json" where
  "json_of r = (case content r of Json j \<Rightarrow> Inr j | Raw _ \<Rightarrow> Inl JSONDecodeError)"

text \<open>A \<^verbatim>\<open>for\<close> loop with no \<^verbatim>\<open>break\<close> in its body.\<close>

primrec for_each :: "(json \<Rightarrow> (unit, 'st) prog) \<Rightarrow> json list \<Rightarrow> (unit, 'st) prog" where
  "for_each f [] = skip"
| "for_each f (x # xs) = seq (f x) (\<lambda>_. for_each f xs)"

text \<open>\<^verbatim>\<open>headers = {"Authorization": f"Bot {token}"}\<close>, the same line in all seven scripts.\<close>

definition auth :: "string \<Rightarrow> (string \<times> string) list" where
  "auth token = [(''Authorization'', ''Bot '' @ token)]"

text \<open>
  \<^verbatim>\<open>r = requests.post(url, headers=headers, json=payload); print(label, r.content)\<close>: the
  pair of lines every creating script repeats. \<^verbatim>\<open>print\<close> separates its two arguments by a
  space.
\<close>

definition post_print :: "'st server \<Rightarrow> string \<Rightarrow> (string \<times> string) list \<Rightarrow> json \<Rightarrow> string \<Rightarrow> (unit, 'st) prog" where
  "post_print srv url headers payload label =
     seq (call srv \<lparr>rq_verb = POST, rq_url = url, rq_headers = headers, rq_json = Some payload\<rparr>)
       (\<lambda>r. emit (Print [Lit label, Lit '' '', Bytes (content r)]))"


section \<open>The scripts\<close>

text \<open>
  The constants the scripts define at their top. Every script that defines one gives it
  the same value.
\<close>

definition CHAT_INPUT :: int where "CHAT_INPUT = 1"
definition GUILD_INSTALL :: int where "GUILD_INSTALL = 0"
definition CTX_GUILD :: int where "CTX_GUILD = 0"
definition CTX_BOT_DM :: int where "CTX_BOT_DM = 1"
definition OPT_STRING :: int where "OPT_STRING = 3"
definition OPT_BOOL :: int where "OPT_BOOL = 5"
definition ADMINISTRATOR_PERM :: int where "ADMINISTRATOR_PERM = 0x0000000000000008"
definition MANAGER_PERM :: int where "MANAGER_PERM = 0x0000000000000020"

text \<open>
  The two URLs the scripts format:
  \<^verbatim>\<open>f"https://discord.com/api/v10/applications/{app}/commands"\<close> and
  \<^verbatim>\<open>f"https://discord.com/api/v10/applications/{app}/guilds/{guild}/commands"\<close>.
\<close>

definition global_url :: "string \<Rightarrow> string" where
  "global_url app = ''https://discord.com/api/v10/applications/'' @ app @ ''/commands''"

definition guild_url :: "string \<Rightarrow> string \<Rightarrow> string" where
  "guild_url app guild =
     ''https://discord.com/api/v10/applications/'' @ app @ ''/guilds/'' @ guild @ ''/commands''"

text \<open>
  And the third, of \<^verbatim>\<open>update_cmd.py\<close>:
  \<^verbatim>\<open>f"https://discord.com/api/v10/applications/{app}/guilds/{guild_id}/commands/{cmd['id']}"\<close>,
  where \<open>i\<close> is the text the f-string makes of \<^verbatim>\<open>cmd['id']\<close>.
\<close>

definition guild_command_url :: "string \<Rightarrow> string \<Rightarrow> string \<Rightarrow> string" where
  "guild_command_url app guild_id i =
     ''https://discord.com/api/v10/applications/'' @ app @ ''/guilds/'' @ guild_id
       @ ''/commands/'' @ i"

subsection \<open>\<^verbatim>\<open>bootsrap.py\<close>\<close>

definition bootsrap_json_bootstrap :: json where
  "bootsrap_json_bootstrap = JObj
     [(''name'', JStr ''bootstrap''),
      (''type'', JInt 1),
      (''description'', JStr ''Register LSDC2 bot commands in your guild''),
      (''default_member_permissions'', JInt ADMINISTRATOR_PERM)]"

definition bootsrap_json_registergame :: json where
  "bootsrap_json_registergame = JObj
     [(''name'', JStr ''register-game''),
      (''type'', JInt 1),
      (''description'', JStr ''Add a new game in the LSDC2 launcher''),
      (''default_member_permissions'', JInt ADMINISTRATOR_PERM),
      (''dm_permission'', JBool True),
      (''options'', JArr
         [JObj [(''type'', JInt 3),
                (''name'', JStr ''spec-url''),
                (''description'', JStr ''Url to LSDC2-compatible game description'')],
          JObj [(''type'', JInt 5),
                (''name'', JStr ''overwrite''),
                (''description'', JStr ''If true, overwrite any existing spec'')]])]"

definition bootsrap_json_spinupgame :: json where
  "bootsrap_json_spinupgame = JObj
     [(''name'', JStr ''spinup''),
      (''description'', JStr ''Start a new server instance''),
      (''default_member_permissions'', JInt MANAGER_PERM),
      (''options'', JArr
         [JObj [(''type'', JInt 3),
                (''name'', JStr ''game-type''),
                (''description'', JStr ''Game type to start''),
                (''required'', JBool True)]])]"

text \<open>
  The arguments \<open>app\<close> and \<open>token\<close> of a prompting script are what the operator types at
  its prompts.
\<close>

definition bootsrap :: "'st server \<Rightarrow> string \<Rightarrow> string \<Rightarrow> (unit, 'st) prog" where
  "bootsrap srv app_typed token_typed =
     seq (input ''Application id: '' app_typed) (\<lambda>app.
     seq (getpass ''Bot token: '' token_typed) (\<lambda>token.
     let headers = auth token;
         url = global_url app
     in
     seq (post_print srv url headers bootsrap_json_bootstrap ''BOOSTRAP result: '') (\<lambda>_.
     seq (post_print srv url headers bootsrap_json_registergame ''ADD-GAME result: '') (\<lambda>_.
     post_print srv url headers bootsrap_json_spinupgame ''ADD-GAME result: ''))))"

subsection \<open>\<^verbatim>\<open>create_global_commands.py\<close>\<close>

definition create_global_commands_json_bootstrap :: json where
  "create_global_commands_json_bootstrap = JObj
     [(''name'', JStr ''bootstrap''),
      (''type'', JInt CHAT_INPUT),
      (''description'', JStr ''Register LSDC2 bot commands in your guild''),
      (''integration_types'', JArr [JInt GUILD_INSTALL]),
      (''contexts'', JArr [JInt CTX_GUILD]),
      (''default_member_permissions'', JInt ADMINISTRATOR_PERM)]"

definition create_global_commands_json_registergame :: json where
  "create_global_commands_json_registergame = JObj
     [(''name'', JStr ''register-game''),
      (''type'', JInt CHAT_INPUT),
      (''description'', JStr ''Add a new game in the LSDC2 launcher''),
      (''integration_types'', JArr [JInt GUILD_INSTALL]),
      (''contexts'', JArr [JInt CTX_BOT_DM]),
      (''default_member_permissions'', JInt ADMINISTRATOR_PERM),
      (''options'', JArr
         [JObj [(''type'', JInt OPT_STRING),
                (''name'', JStr ''spec-url''),
                (''description'', JStr ''Url to LSDC2-compatible game description'')],
          JObj [(''type'', JInt OPT_BOOL),
                (''name'', JStr ''overwrite''),
                (''description'', JStr ''If true, overwrite any existing spec'')]])]"

definition create_global_commands :: "'st server \<Rightarrow> string \<Rightarrow> string \<Rightarrow> (unit, 'st) prog" where
  "create_global_commands srv app_typed token_typed =
     seq (input ''Application id: '' app_typed) (\<lambda>app.
     seq (getpass ''Bot token: '' token_typed) (\<lambda>token.
     let headers = auth token;
         url = global_url app
     in
     seq (post_print srv url headers create_global_commands_json_bootstrap ''BOOSTRAP result: '') (\<lambda>_.
     post_print srv url headers create_global_commands_json_registergame ''REGISTER-GAME result: '')))"

subsection \<open>\<^verbatim>\<open>create_global_cmd.py\<close>\<close>

text \<open>
  The file assigns \<^verbatim>\<open>app\<close> and \<^verbatim>\<open>token\<close> with the right-hand sides left blank, to be
  written in before it is run. Whatever is written there is the argument \<open>app\<close> and
  \<open>token\<close>; the script prompts for nothing.
\<close>

definition create_global_cmd_json_welcomeguild :: json where
  "create_global_cmd_json_welcomeguild = JObj
     [(''name'', JStr ''welcome-guild''),
      (''type'', JInt CHAT_INPUT),
      (''description'', JStr ''Deploy LSDC2 bot commands, channels and roles in your guild''),
      (''integration_types'', JArr [JInt GUILD_INSTALL]),
      (''contexts'', JArr [JInt CTX_GUILD]),
      (''default_member_permissions'', JInt ADMINISTRATOR_PERM)]"

definition create_global_cmd_json_goodbyeguild :: json where
  "create_global_cmd_json_goodbyeguild = JObj
     [(''name'', JStr ''goodbye-guild''),
      (''type'', JInt CHAT_INPUT),
      (''description'', JStr ''Remove everything related to LSDC2 bot from your guild''),
      (''integration_types'', JArr [JInt GUILD_INSTALL]),
      (''contexts'', JArr [JInt CTX_GUILD]),
      (''default_member_permissions'', JInt ADMINISTRATOR_PERM)]"

definition create_global_cmd_json_registergame :: json where
  "create_global_cmd_json_registergame = JObj
     [(''name'', JStr ''register-game''),
      (''type'', JInt CHAT_INPUT),
      (''description'', JStr ''Add a new game in the LSDC2 launcher''),
      (''integration_types'', JArr [JInt GUILD_INSTALL]),
      (''contexts'', JArr [JInt CTX_BOT_DM]),
      (''default_member_permissions'', JInt ADMINISTRATOR_PERM),
      (''options'', JArr
         [JObj [(''type'', JInt OPT_BOOL),
                (''name'', JStr ''overwrite''),
                (''description'', JStr ''If true, overwrite any existing spec'')]])]"

definition create_global_cmd_json_registerenginetier :: json where
  "create_global_cmd_json_registerenginetier = JObj
     [(''name'', JStr ''register-engine-tier''),
      (''type'', JInt CHAT_INPUT),
      (''description'', JStr ''Add/update a engine tier in the LSDC2 launcher''),
      (''integration_types'', JArr [JInt GUILD_INSTALL]),
      (''contexts'', JArr [JInt CTX_BOT_DM]),
      (''default_member_permissions'', JInt ADMINISTRATOR_PERM)]"

definition create_global_cmd :: "'st server \<Rightarrow> string \<Rightarrow> string \<Rightarrow> (unit, 'st) prog" where
  "create_global_cmd srv app token =
     (let headers = auth token;
          url = global_url app
      in
      seq (post_print srv url headers create_global_cmd_json_welcomeguild ''WELCOME-GUILD result: '') (\<lambda>_.
      seq (post_print srv url headers create_global_cmd_json_goodbyeguild ''GOODBYE-GUILD result: '') (\<lambda>_.
      seq (post_print srv url headers create_global_cmd_json_registergame ''REGISTER-GAME result: '') (\<lambda>_.
      post_print srv url headers create_global_cmd_json_registerenginetier ''REGISTER-ENGINE-TIER result: ''))))"

subsection \<open>\<^verbatim>\<open>cleanup.py\<close>\<close>

text \<open>The body of the loop: \<^verbatim>\<open>cmd_url = url + "/" + cmd["id"]; r = requests.delete(...)\<close>.\<close>

definition cleanup_delete :: "'st server \<Rightarrow> string \<Rightarrow> (string \<times> string) list \<Rightarrow> json \<Rightarrow> (unit, 'st) prog" where
  "cleanup_delete srv url headers cmd =
     seq (eval (py_getitem cmd ''id'')) (\<lambda>i.
     seq (eval (py_add_str (url @ ''/'') i)) (\<lambda>cmd_url.
     seq (call srv \<lparr>rq_verb = DELETE, rq_url = cmd_url, rq_headers = headers, rq_json = None\<rparr>) (\<lambda>r.
     skip)))"

text \<open>
  The block the script runs twice, once per scope, with its own URL and its own line of
  output: fetch the list, print its length, delete each entry.
\<close>

definition cleanup_remove :: "'st server \<Rightarrow> string \<Rightarrow> string \<Rightarrow> (string \<times> string) list \<Rightarrow> (unit, 'st) prog" where
  "cleanup_remove srv label url headers =
     seq (call srv \<lparr>rq_verb = GET, rq_url = url, rq_headers = headers, rq_json = None\<rparr>) (\<lambda>r.
     seq (eval (json_of r)) (\<lambda>jbody.
     seq (eval (py_len jbody)) (\<lambda>n.
     seq (emit (Print [Lit label, Len n])) (\<lambda>_.
     seq (eval (py_iter jbody)) (\<lambda>cmds.
     for_each (cleanup_delete srv url headers) cmds)))))"

definition cleanup :: "'st server \<Rightarrow> string \<Rightarrow> string \<Rightarrow> string \<Rightarrow> (unit, 'st) prog" where
  "cleanup srv app_typed guild_typed token_typed =
     seq (input ''Application id: '' app_typed) (\<lambda>app.
     seq (input ''Guild id: '' guild_typed) (\<lambda>guild.
     seq (getpass ''Bot token: '' token_typed) (\<lambda>token.
     let headers = auth token in
     seq (cleanup_remove srv ''Number of global commands: '' (global_url app) headers) (\<lambda>_.
     cleanup_remove srv ''Number of guilds commands: '' (guild_url app guild) headers))))"

subsection \<open>\<^verbatim>\<open>delete_all_commands.py\<close> and \<^verbatim>\<open>delete_global_cmd.py\<close>\<close>

text \<open>
  The loop body of both scripts:
  \<^verbatim>\<open>print(f"Deleting command: {cmd['name']}"); cmd_url = url + "/" + cmd["id"]; r = requests.delete(...)\<close>.
\<close>

definition delete_cmd :: "'st server \<Rightarrow> string \<Rightarrow> (string \<times> string) list \<Rightarrow> json \<Rightarrow> (unit, 'st) prog" where
  "delete_cmd srv url headers cmd =
     seq (eval (py_getitem cmd ''name'')) (\<lambda>name.
     seq (emit (Print [Lit ''Deleting command: '', Str name])) (\<lambda>_.
     seq (eval (py_getitem cmd ''id'')) (\<lambda>i.
     seq (eval (py_add_str (url @ ''/'') i)) (\<lambda>cmd_url.
     seq (call srv \<lparr>rq_verb = DELETE, rq_url = cmd_url, rq_headers = headers, rq_json = None\<rparr>) (\<lambda>r.
     skip)))))"

definition delete_all :: "'st server \<Rightarrow> string \<Rightarrow> string \<Rightarrow> (string \<times> string) list \<Rightarrow> (unit, 'st) prog" where
  "delete_all srv label url headers =
     seq (call srv \<lparr>rq_verb = GET, rq_url = url, rq_headers = headers, rq_json = None\<rparr>) (\<lambda>r.
     seq (eval (json_of r)) (\<lambda>jbody.
     seq (eval (py_len jbody)) (\<lambda>n.
     seq (emit (Print [Lit label, Len n])) (\<lambda>_.
     seq (eval (py_iter jbody)) (\<lambda>cmds.
     for_each (delete_cmd srv url headers) cmds)))))"

definition delete_all_commands :: "'st server \<Rightarrow> string \<Rightarrow> string \<Rightarrow> string \<Rightarrow> (unit, 'st) prog" where
  "delete_all_commands srv app_typed guild_typed token_typed =
     seq (input ''Application id: '' app_typed) (\<lambda>app.
     seq (input ''Guild id: '' guild_typed) (\<lambda>guild.
     seq (getpass ''Bot token: '' token_typed) (\<lambda>token.
     let headers = auth token in
     seq (delete_all srv ''Number of global commands: '' (global_url app) headers) (\<lambda>_.
     delete_all srv ''Number of guilds commands: '' (guild_url app guild) headers))))"

definition delete_global_cmd :: "'st server \<Rightarrow> string \<Rightarrow> string \<Rightarrow> (unit, 'st) prog" where
  "delete_global_cmd srv app_typed token_typed =
     seq (input ''Application id: '' app_typed) (\<lambda>app.
     seq (getpass ''Bot token: '' token_typed) (\<lambda>token.
     let headers = auth token in
     delete_all srv ''Number of global commands: '' (global_url app) headers))"

subsection \<open>\<^verbatim>\<open>update_cmd.py\<close>\<close>

text \<open>
  \<^verbatim>\<open>app\<close>, \<^verbatim>\<open>token\<close>, \<^verbatim>\<open>guild_id\<close> and \<^verbatim>\<open>cmd_name\<close> are assigned with blank right-hand
  sides in the file; they are the arguments here. The loop stops at the first command
  whose name is \<^verbatim>\<open>cmd_name\<close> (\<^verbatim>\<open>break\<close>), sends it back unchanged with PATCH and prints
  the response.
\<close>

primrec update_first ::
  "'st server \<Rightarrow> (json \<Rightarrow> string) \<Rightarrow> string \<Rightarrow> string \<Rightarrow> string \<Rightarrow> (string \<times> string) list \<Rightarrow> json list \<Rightarrow> (unit, 'st) prog"
where
  "update_first srv repr app guild_id cmd_name headers [] = skip"
| "update_first srv repr app guild_id cmd_name headers (cmd # cmds) =
     seq (eval (py_getitem cmd ''name'')) (\<lambda>name.
     if name = JStr cmd_name then
       seq (eval (py_getitem cmd ''id'')) (\<lambda>i.
       let url = guild_command_url app guild_id (py_str repr i) in
       seq (call srv \<lparr>rq_verb = PATCH, rq_url = url, rq_headers = headers, rq_json = Some cmd\<rparr>) (\<lambda>r.
       emit (Print [Lit ''UPDATE result: '', Lit '' '', Bytes (content r)])))
     else update_first srv repr app guild_id cmd_name headers cmds)"

definition update_cmd ::
  "'st server \<Rightarrow> (json \<Rightarrow> string) \<Rightarrow> string \<Rightarrow> string \<Rightarrow> string \<Rightarrow> string \<Rightarrow> (unit, 'st) prog" where
  "update_cmd srv repr app token guild_id cmd_name =
     (let headers = auth token;
          url = guild_url app guild_id
      in
      seq (call srv \<lparr>rq_verb = GET, rq_url = url, rq_headers = headers, rq_json = None\<rparr>) (\<lambda>r.
      seq (eval (json_of r)) (\<lambda>jbody.
      seq (eval (py_iter jbody)) (\<lambda>cmds.
      update_first srv repr app guild_id cmd_name headers cmds))))"


section \<open>Reading a run\<close>

fun requests_of :: "event list \<Rightarrow> request list" where
  "requests_of [] = []"
| "requests_of (Http rq _ # evs) = rq # requests_of evs"
| "requests_of (_ # evs) = requests_of evs"

fun prints_of :: "event list \<Rightarrow> piece list list" where
  "prints_of [] = []"
| "prints_of (Print ps # evs) = ps # prints_of evs"
| "prints_of (_ # evs) = prints_of evs"

fun prompts_of :: "event list \<Rightarrow> event list" where
  "prompts_of [] = []"
| "prompts_of (Input p a # evs) = Input p a # prompts_of evs"
| "prompts_of (Getpass p a # evs) = Getpass p a # prompts_of evs"
| "prompts_of (_ # evs) = prompts_of evs"


section \<open>The remote service\<close>

text \<open>
  Modelled from the spec: the remote command service the scripts talk to, which is a
  third party's REST API and no part of the repository. The model follows the spec's data
  model and operations (sections 3, 4.1, 6 and 7): commands are kept per scope, a scope
  is addressed by its collection URL and a command by that URL followed by \<^verbatim>\<open>/\<close> and its
  id; every request must carry the bot token; listing returns the scope's commands in
  order; creating assigns the id and keeps the name unique within the scope by replacing
  a command of the same name; updating and deleting an id that is not there is a
  NotFoundError and changes nothing. Rate limiting is left out.

  \<open>rivals\<close> is what other clients of the service do meanwhile: its n-th entry lists the
  commands (collection URL, id) that somebody else removes just before the n-th request
  from now is served.
\<close>

record remote =
  bot_token :: string
  registry :: "(string \<times> json list) list"
  next_id :: nat
  rivals :: "(string \<times> string) list list"

text \<open>
  Modelled from the spec: the error taxonomy of section 7, read off the status code of a
  response. The scripts themselves never look at a status.
\<close>

datatype kind = AuthError | ValidationError | NotFoundError | RateLimitError

definition classify :: "nat \<Rightarrow> kind option" where
  "classify code =
     (if code = 401 then Some AuthError
      else if code = 400 then Some ValidationError
      else if code = 404 then Some NotFoundError
      else if code = 429 then Some RateLimitError
      else None)"

text \<open>Modelled from the spec: the response that reports an error.\<close>

definition problem :: "nat \<Rightarrow> string \<Rightarrow> response" where
  "problem code msg =
     \<lparr>status = code, content = Json (JObj [(''message'', JStr msg), (''code'', JInt 0)])\<rparr>"

text \<open>What is left of \<open>u\<close> after the prefix \<open>p\<close>, when \<open>p\<close> is a prefix of it.\<close>

fun strip_prefix :: "string \<Rightarrow> string \<Rightarrow> string option" where
  "strip_prefix [] u = Some u"
| "strip_prefix (c # p) [] = None"
| "strip_prefix (c # p) (d # u) = (if c = d then strip_prefix p u else None)"

text \<open>
  Modelled from the spec: the scope, by its collection URL, and the id that the URL of a
  command names (section 6: the base path suffixed with \<^verbatim>\<open>/{command_id}\<close>).
\<close>

fun locate :: "(string \<times> json list) list \<Rightarrow> string \<Rightarrow> (string \<times> string) option" where
  "locate [] u = None"
| "locate ((c, cmds) # rest) u =
     (case strip_prefix (c @ ''/'') u of Some i \<Rightarrow> Some (c, i) | None \<Rightarrow> locate rest u)"

text \<open>Changing the commands of one scope.\<close>

fun amend :: "string \<Rightarrow> (json list \<Rightarrow> json list) \<Rightarrow> (string \<times> json list) list \<Rightarrow> (string \<times> json list) list" where
  "amend c f [] = []"
| "amend c f ((c', cmds) # rest) =
     (if c' = c then (c', f cmds) # rest else (c', cmds) # amend c f rest)"

definition has_id :: "string \<Rightarrow> json \<Rightarrow> bool" where
  "has_id i cmd = (py_getitem cmd ''id'' = Inr (JStr i))"

definition has_name :: "string \<Rightarrow> json \<Rightarrow> bool" where
  "has_name n cmd = (py_getitem cmd ''name'' = Inr (JStr n))"

definition without_id :: "string \<Rightarrow> json list \<Rightarrow> json list" where
  "without_id i cmds = filter (\<lambda>cmd. \<not> has_id i cmd) cmds"

definition without_name :: "string \<Rightarrow> json list \<Rightarrow> json list" where
  "without_name n cmds = filter (\<lambda>cmd. \<not> has_name n cmd) cmds"

text \<open>
  Modelled from the spec: ids are assigned by the remote service (section 3); here the
  decimal digits of a counter.
\<close>

fun digits :: "nat \<Rightarrow> string" where
  "digits n = (if n < 10 then [char_of (48 + n)] else digits (n div 10) @ [char_of (48 + n mod 10)])"

declare digits.simps [simp del]

fun fields_of :: "json \<Rightarrow> (string \<times> json) list" where
  "fields_of (JObj kvs) = kvs"
| "fields_of _ = []"

text \<open>
  Modelled from the spec: a patch (section 3: same id, mutated fields). The fields sent
  replace the command's, the others and the id stay.
\<close>

definition revise :: "string \<Rightarrow> (string \<times> json) list \<Rightarrow> json \<Rightarrow> json" where
  "revise i sent cmd =
     (if has_id i cmd
      then JObj ((''id'', JStr i) # filter (\<lambda>kv. fst kv \<noteq> ''id'') sent
                 @ filter (\<lambda>kv. fst kv \<noteq> ''id'' \<and> map_of sent (fst kv) = None) (fields_of cmd))
      else cmd)"

definition commands_in :: "remote \<Rightarrow> string \<Rightarrow> json list" where
  "commands_in r c = (case map_of (registry r) c of None \<Rightarrow> [] | Some cmds \<Rightarrow> cmds)"

text \<open>
  Modelled from the spec: the removals by other clients that are due before the next
  request is served (section 8: ``already removed concurrently'').
\<close>

definition meddle :: "remote \<Rightarrow> remote" where
  "meddle r =
     (case rivals r of
        [] \<Rightarrow> r
      | gone # later \<Rightarrow>
          r\<lparr>registry := foldr (\<lambda>ci. amend (fst ci) (without_id (snd ci))) gone (registry r),
            rivals := later\<rparr>)"

text \<open>
  Modelled from the spec: the four operations of section 4.1 on the remote side. GET lists
  a scope; POST creates a command from an object with a string name (anything else is a
  ValidationError), assigns its id and replaces a command of the same name; PATCH and
  DELETE address a command by its URL and are a NotFoundError when the scope or the id is
  not there, leaving everything as it was.
\<close>

definition serve :: "remote \<Rightarrow> request \<Rightarrow> reply \<times> remote" where
  "serve r rq =
     (case rq_verb rq of
        GET \<Rightarrow>
          (case map_of (registry r) (rq_url rq) of
             None \<Rightarrow> (Reply (problem 404 ''Unknown application or guild''), r)
           | Some cmds \<Rightarrow> (Reply \<lparr>status = 200, content = Json (JArr cmds)\<rparr>, r))
      | POST \<Rightarrow>
          (case map_of (registry r) (rq_url rq) of
             None \<Rightarrow> (Reply (problem 404 ''Unknown application or guild''), r)
           | Some cmds \<Rightarrow>
               (case rq_json rq of
                  Some (JObj sent) \<Rightarrow>
                    (case map_of sent ''name'' of
                       Some (JStr n) \<Rightarrow>
                         (let cmd = JObj ((''id'', JStr (digits (next_id r))) # sent) in
                          (Reply \<lparr>status = 201, content = Json cmd\<rparr>,
                           r\<lparr>registry := amend (rq_url rq) (\<lambda>cs. without_name n cs @ [cmd]) (registry r),
                             next_id := Suc (next_id r)\<rparr>))
                     | _ \<Rightarrow> (Reply (problem 400 ''Invalid form body''), r))
                | _ \<Rightarrow> (Reply (problem 400 ''Invalid form body''), r)))
      | PATCH \<Rightarrow>
          (case locate (registry r) (rq_url rq) of
             None \<Rightarrow> (Reply (problem 404 ''Unknown application command''), r)
           | Some (c, i) \<Rightarrow>
               (case find (has_id i) (commands_in r c) of
                  None \<Rightarrow> (Reply (problem 404 ''Unknown application command''), r)
                | Some cmd \<Rightarrow>
                    (case rq_json rq of
                       Some (JObj sent) \<Rightarrow>
                         (Reply \<lparr>status = 200, content = Json (revise i sent cmd)\<rparr>,
                          r\<lparr>registry := amend c (map (revise i sent)) (registry r)\<rparr>)
                     | _ \<Rightarrow> (Reply (problem 400 ''Invalid form body''), r))))
      | DELETE \<Rightarrow>
          (case locate (registry r) (rq_url rq) of
             None \<Rightarrow> (Reply (problem 404 ''Unknown application command''), r)
           | Some (c, i) \<Rightarrow>
               (case find (has_id i) (commands_in r c) of
                  None \<Rightarrow> (Reply (problem 404 ''Unknown application command''), r)
                | Some cmd \<Rightarrow>
                    (Reply \<lparr>status = 204, content = Raw []\<rparr>,
                     r\<lparr>registry := amend c (without_id i) (registry r)\<rparr>))))"

text \<open>
  Modelled from the spec: one request served. The other clients' removals come first;
  then a request without the right \<^verbatim>\<open>Authorization\<close> header is an AuthError, and any
  other is served.
\<close>

definition remote_step :: "remote server" where
  "remote_step r0 rq =
     (let r = meddle r0 in
      if map_of (rq_headers rq) ''Authorization'' = Some (''Bot '' @ bot_token r)
      then serve r rq
      else (Reply (problem 401 ''401: Unauthorized''), r))"

text \<open>
  Modelled from the spec: \<open>listCommands(scope)\<close> as a later client with the right token
  would see it.
\<close>

definition listing :: "remote \<Rightarrow> string \<Rightarrow> json list option" where
  "listing r url = map_of (registry r) url"


section \<open>Vocabulary for the properties\<close>

text \<open>The two requests of a delete-all block, as the scripts build them.\<close>

definition get_request :: "string \<Rightarrow> (string \<times> string) list \<Rightarrow> request" where
  "get_request url headers =
     \<lparr>rq_verb = GET, rq_url = url, rq_headers = headers, rq_json = None\<rparr>"

definition delete_request :: "string \<Rightarrow> (string \<times> string) list \<Rightarrow> string \<Rightarrow> request" where
  "delete_request url headers i =
     \<lparr>rq_verb = DELETE, rq_url = url @ ''/'' @ i, rq_headers = headers, rq_json = None\<rparr>"

definition post_request :: "string \<Rightarrow> (string \<times> string) list \<Rightarrow> json \<Rightarrow> request" where
  "post_request url headers payload =
     \<lparr>rq_verb = POST, rq_url = url, rq_headers = headers, rq_json = Some payload\<rparr>"

text \<open>The id of a listed command, when it is an object whose \<^verbatim>\<open>"id"\<close> is a string.\<close>

definition id_text :: "json \<Rightarrow> string option" where
  "id_text cmd = (case py_getitem cmd ''id'' of Inr (JStr i) \<Rightarrow> Some i | _ \<Rightarrow> None)"

text \<open>A remote end that answers every request, with whatever status.\<close>

definition always_answers :: "'st server \<Rightarrow> bool" where
  "always_answers srv = (\<forall>s rq. fst (srv s rq) \<noteq> Failure)"

text \<open>
  The spec's words for the result of a delete-all: how many deletions succeeded (a DELETE
  answered with a 2xx status) and how many failed (any other answer, or none).
\<close>

fun deleted :: "event \<Rightarrow> bool" where
  "deleted (Http rq (Reply r)) = (rq_verb rq = DELETE \<and> 200 \<le> status r \<and> status r < 300)"
| "deleted _ = False"

fun not_deleted :: "event \<Rightarrow> bool" where
  "not_deleted (Http rq (Reply r)) = (rq_verb rq = DELETE \<and> \<not> (200 \<le> status r \<and> status r < 300))"
| "not_deleted (Http rq Failure) = (rq_verb rq = DELETE)"
| "not_deleted _ = False"

definition succeeded :: "event list \<Rightarrow> nat" where
  "succeeded evs = length (filter deleted evs)"

definition failed :: "event list \<Rightarrow> nat" where
  "failed evs = length (filter not_deleted evs)"

text \<open>The numbers a run prints, in order.\<close>

fun numbers_of :: "piece list \<Rightarrow> nat list" where
  "numbers_of [] = []"
| "numbers_of (Len n # ps) = n # numbers_of ps"
| "numbers_of (_ # ps) = numbers_of ps"

definition printed_numbers :: "event list \<Rightarrow> nat list" where
  "printed_numbers evs = concat (map numbers_of (prints_of evs))"

text \<open>
  ``Reports a count of successful and failed deletions'', read as weakly as it can be:
  both counts are among the numbers the run prints, anywhere.
\<close>

definition reports_counts :: "event list \<Rightarrow> bool" where
  "reports_counts evs =
     (succeeded evs \<in> set (printed_numbers evs) \<and> failed evs \<in> set (printed_numbers evs))"

text \<open>The statuses the DELETE requests of a run were answered with, in order.\<close>

fun delete_statuses :: "event list \<Rightarrow> nat list" where
  "delete_statuses [] = []"
| "delete_statuses (Http rq (Reply r) # evs) =
     (if rq_verb rq = DELETE then status r # delete_statuses evs else delete_statuses evs)"
| "delete_statuses (_ # evs) = delete_statuses evs"

text \<open>The error kinds, in the spec's taxonomy, of the answers a run received.\<close>

fun reply_kinds :: "event list \<Rightarrow> kind list" where
  "reply_kinds [] = []"
| "reply_kinds (Http rq (Reply r) # evs) =
     (case classify (status r) of Some k \<Rightarrow> k # reply_kinds evs | None \<Rightarrow> reply_kinds evs)"
| "reply_kinds (_ # evs) = reply_kinds evs"

text \<open>
  ``The operation fails with an error of kind k'': the script dies of an exception, or
  one of its requests is answered with an error of that kind.
\<close>

definition fails_with :: "kind \<Rightarrow> ('a, 'st) run \<Rightarrow> bool" where
  "fails_with k r = ((case outcome r of Inl e \<Rightarrow> True | Inr a \<Rightarrow> False) \<or> k \<in> set (reply_kinds (events r)))"

text \<open>
  The spec's request paths (section 6): the base path of a scope, under the API's root.
\<close>

datatype scope = Global | Guild string

fun base_path :: "string \<Rightarrow> scope \<Rightarrow> string" where
  "base_path app Global = ''/applications/'' @ app @ ''/commands''"
| "base_path app (Guild guild_id) = ''/applications/'' @ app @ ''/guilds/'' @ guild_id @ ''/commands''"

definition api_root :: string where
  "api_root = ''https://discord.com/api/v10''"

text \<open>A request with verb \<open>v\<close> on the base path of a scope, and one on the path of a command in it.\<close>

definition on_scope :: "string \<Rightarrow> scope \<Rightarrow> verb \<Rightarrow> request \<Rightarrow> bool" where
  "on_scope app sc v rq = (rq_verb rq = v \<and> rq_url rq = api_root @ base_path app sc)"

definition on_command :: "string \<Rightarrow> scope \<Rightarrow> verb \<Rightarrow> request \<Rightarrow> bool" where
  "on_command app sc v rq =
     (rq_verb rq = v \<and> (\<exists>i. rq_url rq = api_root @ base_path app sc @ ''/'' @ i))"

text \<open>What a delete-all block may send: a GET on its URL and DELETEs below it.\<close>

definition block_request :: "string \<Rightarrow> request \<Rightarrow> bool" where
  "block_request url rq =
     ((rq_verb rq = GET \<and> rq_url rq = url)
      \<or> (rq_verb rq = DELETE \<and> (\<exists>i. rq_url rq = url @ ''/'' @ i)))"

definition two_scopes :: "string \<Rightarrow> string \<Rightarrow> request \<Rightarrow> bool" where
  "two_scopes app guild rq =
     (on_scope app Global GET rq \<or> on_command app Global DELETE rq
      \<or> on_scope app (Guild guild) GET rq \<or> on_command app (Guild guild) DELETE rq)"


text \<open>
  ``No mutating call without a preceding list request'': going through the requests in
  order, every request that is not a GET addresses a collection that an earlier GET has
  fetched, or a command in it. \<open>seen\<close> holds the URLs fetched so far.
\<close>

definition within :: "string \<Rightarrow> string \<Rightarrow> bool" where
  "within u url = (url = u \<or> strip_prefix (u @ ''/'') url \<noteq> None)"

fun fetched_first :: "string list \<Rightarrow> request list \<Rightarrow> bool" where
  "fetched_first seen [] = True"
| "fetched_first seen (rq # rqs) =
     (if rq_verb rq = GET then fetched_first (rq_url rq # seen) rqs
      else list_ex (\<lambda>u. within u (rq_url rq)) seen \<and> fetched_first seen rqs)"

fun is_prompt :: "event \<Rightarrow> bool" where
  "is_prompt (Input p a) = True"
| "is_prompt (Getpass p a) = True"
| "is_prompt _ = False"

text \<open>A property of every event a program can produce, from any state of the remote end.\<close>

definition every_event :: "(event \<Rightarrow> bool) \<Rightarrow> ('a, 'st) prog \<Rightarrow> bool" where
  "every_event P m = (\<forall>s. list_all P (events (m s)))"

fun on_requests :: "(request \<Rightarrow> bool) \<Rightarrow> event \<Rightarrow> bool" where
  "on_requests Q (Http rq _) = Q rq"
| "on_requests Q _ = True"

subsection \<open>Sample data\<close>

text \<open>
  Three registered commands and some states of the remote service, for application
  \<^verbatim>\<open>9\<close>, guild \<^verbatim>\<open>123\<close> and bot token \<^verbatim>\<open>t\<close>, on which the properties are tried.
\<close>

definition sample_a :: json where
  "sample_a = JObj [(''id'', JStr ''1''), (''name'', JStr ''alpha'')]"

definition sample_b :: json where
  "sample_b = JObj [(''id'', JStr ''2''), (''name'', JStr ''beta'')]"

definition sample_c :: json where
  "sample_c = JObj [(''id'', JStr ''3''), (''name'', JStr ''gamma'')]"

text \<open>Nobody else touches the service.\<close>

definition calm_remote :: remote where
  "calm_remote =
     \<lparr>bot_token = ''t'',
      registry = [(global_url ''9'', [sample_a]), (guild_url ''9'' ''123'', [sample_b, sample_c])],
      next_id = 4,
      rivals = []\<rparr>"

text \<open>Both scopes are empty.\<close>

definition empty_remote :: remote where
  "empty_remote =
     \<lparr>bot_token = ''t'',
      registry = [(global_url ''9'', []), (guild_url ''9'' ''123'', [])],
      next_id = 4,
      rivals = []\<rparr>"

text \<open>
  The guild holds three commands; somebody else removes the second one just before the
  fourth request from now is served.
\<close>

definition raced_remote :: remote where
  "raced_remote =
     \<lparr>bot_token = ''t'',
      registry = [(global_url ''9'', []), (guild_url ''9'' ''123'', [sample_a, sample_b, sample_c])],
      next_id = 4,
      rivals = [[], [], [], [(guild_url ''9'' ''123'', ''2'')]]\<rparr>"

text \<open>
  The global scope holds one command, which somebody else removes just before the second
  request from now is served.
\<close>

definition contested_remote :: remote where
  "contested_remote =
     \<lparr>bot_token = ''t'',
      registry = [(global_url ''9'', [sample_a]), (guild_url ''9'' ''123'', [])],
      next_id = 4,
      rivals = [[], [(global_url ''9'', ''1'')]]\<rparr>"



section \<open>Facts about runs\<close>

lemma requests_of_append [simp]: "requests_of (xs @ ys) = requests_of xs @ requests_of ys"
  by (induction xs rule: requests_of.induct) simp_all

lemma prints_of_append [simp]: "prints_of (xs @ ys) = prints_of xs @ prints_of ys"
  by (induction xs rule: prints_of.induct) simp_all

lemma prompts_of_append [simp]: "prompts_of (xs @ ys) = prompts_of xs @ prompts_of ys"
  by (induction xs rule: prompts_of.induct) simp_all

lemma events_seq:
  "events (seq m f s) =
     events (m s) @ (case outcome (m s) of Inl e \<Rightarrow> [] | Inr a \<Rightarrow> events (f a (final (m s))))"
  by (simp add: seq_def events_def outcome_def final_def split: prod.splits sum.splits)

lemma outcome_seq:
  "outcome (seq m f s) =
     (case outcome (m s) of Inl e \<Rightarrow> Inl e | Inr a \<Rightarrow> outcome (f a (final (m s))))"
  by (simp add: seq_def outcome_def final_def split: prod.splits sum.splits)

lemma final_seq:
  "final (seq m f s) =
     (case outcome (m s) of Inl e \<Rightarrow> final (m s) | Inr a \<Rightarrow> final (f a (final (m s))))"
  by (simp add: seq_def outcome_def final_def split: prod.splits sum.splits)

lemma run_eqI:
  "outcome r = a \<Longrightarrow> events r = evs \<Longrightarrow> final r = s \<Longrightarrow> r = (a, evs, s)"
  by (auto simp: outcome_def events_def final_def)

lemma eval_run [simp]:
  "outcome (eval r s) = r" "events (eval r s) = []" "final (eval r s) = s"
  by (simp_all add: eval_def outcome_def events_def final_def)

lemma emit_run [simp]:
  "outcome (emit ev s) = Inr ()" "events (emit ev s) = [ev]" "final (emit ev s) = s"
  by (simp_all add: emit_def outcome_def events_def final_def)

lemma skip_run [simp]:
  "outcome (skip s) = Inr ()" "events (skip s) = []" "final (skip s) = s"
  by (simp_all add: skip_def outcome_def events_def final_def)

lemma input_run [simp]:
  "outcome (input p a s) = Inr a" "events (input p a s) = [Input p a]" "final (input p a s) = s"
  by (simp_all add: input_def outcome_def events_def final_def)

lemma getpass_run [simp]:
  "outcome (getpass p a s) = Inr a" "events (getpass p a s) = [Getpass p a]"
  "final (getpass p a s) = s"
  by (simp_all add: getpass_def outcome_def events_def final_def)

lemma call_events: "events (call srv rq s) = [Http rq (fst (srv s rq))]"
  by (simp add: call_def events_def split: prod.splits reply.splits)

lemma call_outcome:
  "outcome (call srv rq s) =
     (case fst (srv s rq) of Failure \<Rightarrow> Inl ConnectionError | Reply r \<Rightarrow> Inr r)"
  by (simp add: call_def outcome_def split: prod.splits reply.splits)

lemma call_final: "final (call srv rq s) = snd (srv s rq)"
  by (simp add: call_def final_def split: prod.splits reply.splits)

lemma call_answered:
  assumes "always_answers srv"
  obtains r where "fst (srv s rq) = Reply r"
  using assms by (cases "fst (srv s rq)") (auto simp: always_answers_def)

subsection \<open>Properties of every event\<close>

lemma every_eventD: "every_event P m \<Longrightarrow> ev \<in> set (events (m s)) \<Longrightarrow> P ev"
  by (auto simp: every_event_def list_all_iff)

lemma every_event_seq:
  assumes "every_event P m" "\<And>a. every_event P (f a)"
  shows "every_event P (seq m f)"
  using assms by (auto simp: every_event_def events_seq split: sum.splits)

lemma every_event_eval_seq:
  assumes "\<And>a. r = Inr a \<Longrightarrow> every_event P (f a)"
  shows "every_event P (seq (eval r) f)"
  using assms by (auto simp: every_event_def events_seq split: sum.splits)

lemma every_event_input_seq:
  assumes "P (Input p a)" "every_event P (f a)"
  shows "every_event P (seq (input p a) f)"
  using assms by (auto simp: every_event_def events_seq)

lemma every_event_getpass_seq:
  assumes "P (Getpass p a)" "every_event P (f a)"
  shows "every_event P (seq (getpass p a) f)"
  using assms by (auto simp: every_event_def events_seq)

lemma every_event_call: "(\<And>a. P (Http rq a)) \<Longrightarrow> every_event P (call srv rq)"
  by (simp add: every_event_def call_events)

lemma every_event_emit: "P ev \<Longrightarrow> every_event P (emit ev)"
  by (simp add: every_event_def)

lemma every_event_skip: "every_event P skip"
  by (simp add: every_event_def)

lemma every_event_if:
  "(c \<Longrightarrow> every_event P a) \<Longrightarrow> (\<not> c \<Longrightarrow> every_event P b) \<Longrightarrow> every_event P (if c then a else b)"
  by simp

lemma every_event_for_each:
  assumes "\<And>x. every_event P (f x)"
  shows "every_event P (for_each f xs)"
  by (induction xs) (auto intro: every_event_skip every_event_seq assms)

lemma every_event_post_print:
  assumes "\<And>a. P (Http (post_request url headers payload) a)" "\<And>ps. P (Print ps)"
  shows "every_event P (post_print srv url headers payload label)"
  unfolding post_print_def
  by (intro every_event_seq every_event_call every_event_emit assms [unfolded post_request_def])

lemma every_event_update_first:
  assumes "\<And>cmd i a. P (Http \<lparr>rq_verb = PATCH, rq_url = guild_command_url app guild_id i,
      rq_headers = headers, rq_json = Some cmd\<rparr> a)" "\<And>ps. P (Print ps)"
  shows "every_event P (update_first srv repr app guild_id cmd_name headers cmds)"
proof (induction cmds)
  case Nil
  show ?case by (simp add: every_event_skip)
next
  case (Cons cmd cmds)
  show ?case
    unfolding update_first.simps Let_def
    by (intro every_event_eval_seq every_event_seq every_event_call every_event_emit
        every_event_if assms Cons)
qed

lemmas every_event_intros =
  every_event_input_seq every_event_getpass_seq every_event_eval_seq every_event_seq
  every_event_call every_event_emit every_event_skip every_event_for_each
  every_event_post_print every_event_update_first

lemma every_request:
  assumes "every_event (on_requests Q) m"
  shows "\<forall>rq\<in>set (requests_of (events (m s))). Q rq"
proof -
  have "list_all (on_requests Q) evs \<Longrightarrow> \<forall>rq\<in>set (requests_of evs). Q rq" for evs
    by (induction evs rule: requests_of.induct) auto
  with assms show ?thesis unfolding every_event_def by blast
qed

subsection \<open>Every request carries the token\<close>

lemma auth_bootsrap:
  "every_event (on_requests (\<lambda>rq. rq_headers rq = auth token)) (bootsrap srv app token)"
  unfolding bootsrap_def Let_def
  by (intro every_event_intros) (simp_all add: post_request_def)

lemma auth_create_global_commands:
  "every_event (on_requests (\<lambda>rq. rq_headers rq = auth token)) (create_global_commands srv app token)"
  unfolding create_global_commands_def Let_def
  by (intro every_event_intros) (simp_all add: post_request_def)

lemma auth_create_global_cmd:
  "every_event (on_requests (\<lambda>rq. rq_headers rq = auth token)) (create_global_cmd srv app token)"
  unfolding create_global_cmd_def Let_def
  by (intro every_event_intros) (simp_all add: post_request_def)

lemma auth_cleanup:
  "every_event (on_requests (\<lambda>rq. rq_headers rq = auth token)) (cleanup srv app guild token)"
  unfolding cleanup_def cleanup_remove_def cleanup_delete_def Let_def
  by (intro every_event_intros) simp_all

lemma auth_delete_all_commands:
  "every_event (on_requests (\<lambda>rq. rq_headers rq = auth token))
     (delete_all_commands srv app guild token)"
  unfolding delete_all_commands_def delete_all_def delete_cmd_def Let_def
  by (intro every_event_intros) simp_all

lemma auth_delete_global_cmd:
  "every_event (on_requests (\<lambda>rq. rq_headers rq = auth token)) (delete_global_cmd srv app token)"
  unfolding delete_global_cmd_def delete_all_def delete_cmd_def Let_def
  by (intro every_event_intros) simp_all

lemma auth_update_cmd:
  "every_event (on_requests (\<lambda>rq. rq_headers rq = auth token))
     (update_cmd srv repr app token guild_id cmd_name)"
  unfolding update_cmd_def Let_def
  by (intro every_event_intros) simp_all

text \<open>
  Claim C8. Every HTTP request that any of the seven scripts issues, whatever the remote
  end answers and however far the script gets, carries as its headers the one entry
  \<^verbatim>\<open>Authorization: Bot <token>\<close>, where the token is the one the script read (or, for
  \<^verbatim>\<open>update_cmd.py\<close> and \<^verbatim>\<open>create_global_cmd.py\<close>, was assigned). No request goes out
  without it.
\<close>

theorem every_request_carries_the_bot_token:
  "(\<forall>rq\<in>set (requests_of (events (bootsrap srv app token s))).
      rq_headers rq = [(''Authorization'', ''Bot '' @ token)])
   \<and> (\<forall>rq\<in>set (requests_of (events (create_global_commands srv app token s))).
      rq_headers rq = [(''Authorization'', ''Bot '' @ token)])
   \<and> (\<forall>rq\<in>set (requests_of (events (create_global_cmd srv app token s))).
      rq_headers rq = [(''Authorization'', ''Bot '' @ token)])
   \<and> (\<forall>rq\<in>set (requests_of (events (cleanup srv app guild token s))).
      rq_headers rq = [(''Authorization'', ''Bot '' @ token)])
   \<and> (\<forall>rq\<in>set (requests_of (events (delete_all_commands srv app guild token s))).
      rq_headers rq = [(''Authorization'', ''Bot '' @ token)])
   \<and> (\<forall>rq\<in>set (requests_of (events (delete_global_cmd srv app token s))).
      rq_headers rq = [(''Authorization'', ''Bot '' @ token)])
   \<and> (\<forall>rq\<in>set (requests_of (events (update_cmd srv repr app token guild cmd_name s))).
      rq_headers rq = [(''Authorization'', ''Bot '' @ token)])"
  unfolding auth_def [symmetric]
  by (intro conjI every_request auth_bootsrap auth_create_global_commands
      auth_create_global_cmd auth_cleanup auth_delete_all_commands auth_delete_global_cmd
      auth_update_cmd)

theorem every_request_carries_the_bot_token_witness:
  "length (requests_of (events (cleanup remote_step ''9'' ''123'' ''t'' calm_remote))) = 5
   \<and> list_all (\<lambda>rq. rq_headers rq = [(''Authorization'', ''Bot t'')])
        (requests_of (events (cleanup remote_step ''9'' ''123'' ''t'' calm_remote)))
   \<and> length (requests_of (events (bootsrap remote_step ''9'' ''t'' calm_remote))) = 3
   \<and> list_all (\<lambda>rq. rq_headers rq = [(''Authorization'', ''Bot t'')])
        (requests_of (events (bootsrap remote_step ''9'' ''t'' calm_remote)))"
proof -
  have "length (requests_of (events (cleanup remote_step ''9'' ''123'' ''t'' calm_remote))) = 5"
    by code_simp
  moreover have "length (requests_of (events (bootsrap remote_step ''9'' ''t'' calm_remote))) = 3"
    by code_simp
  moreover note every_request_carries_the_bot_token
    [of remote_step "''9''" "''t''" calm_remote "''123''"]
  ultimately show ?thesis
    by (simp add: list_all_iff)
qed



subsection \<open>The URLs\<close>

lemma global_url_path: "global_url app = api_root @ base_path app Global"
  by (simp add: global_url_def api_root_def)

lemma guild_url_path: "guild_url app guild = api_root @ base_path app (Guild guild)"
  by (simp add: guild_url_def api_root_def)

lemma guild_command_url_path: "guild_command_url app guild i = guild_url app guild @ ''/'' @ i"
  by (simp add: guild_command_url_def guild_url_def)

lemma py_add_str_Inr: "py_add_str s v = Inr u \<Longrightarrow> \<exists>t. v = JStr t \<and> u = s @ t"
  by (cases v) auto

lemma every_event_mono:
  "every_event P m \<Longrightarrow> (\<And>ev. P ev \<Longrightarrow> Q ev) \<Longrightarrow> every_event Q m"
  by (auto simp: every_event_def list_all_iff)

lemma on_requests_mono: "on_requests P ev \<Longrightarrow> (\<And>rq. P rq \<Longrightarrow> Q rq) \<Longrightarrow> on_requests Q ev"
  by (cases ev) auto

lemma block_request_get: "block_request url \<lparr>rq_verb = GET, rq_url = url, rq_headers = h, rq_json = j\<rparr>"
  by (simp add: block_request_def)

lemma block_request_delete:
  "py_add_str (url @ ''/'') i = Inr cmd_url
   \<Longrightarrow> block_request url \<lparr>rq_verb = DELETE, rq_url = cmd_url, rq_headers = h, rq_json = j\<rparr>"
  by (auto simp: block_request_def dest!: py_add_str_Inr)

lemma cleanup_remove_requests:
  "every_event (on_requests (block_request url)) (cleanup_remove srv label url headers)"
  unfolding cleanup_remove_def cleanup_delete_def
  by (intro every_event_intros) (simp_all add: block_request_get block_request_delete)

lemma delete_all_requests:
  "every_event (on_requests (block_request url)) (delete_all srv label url headers)"
  unfolding delete_all_def delete_cmd_def
  by (intro every_event_intros) (simp_all add: block_request_get block_request_delete)

lemma block_request_global:
  "block_request (global_url app) rq \<Longrightarrow> on_scope app Global GET rq \<or> on_command app Global DELETE rq"
  unfolding block_request_def on_scope_def on_command_def global_url_path by auto

lemma block_request_guild:
  "block_request (guild_url app guild) rq
   \<Longrightarrow> on_scope app (Guild guild) GET rq \<or> on_command app (Guild guild) DELETE rq"
  unfolding block_request_def on_scope_def on_command_def guild_url_path by auto

lemma paths_cleanup:
  "every_event (on_requests (two_scopes app guild)) (cleanup srv app guild token)"
  unfolding cleanup_def Let_def
proof (intro every_event_input_seq every_event_getpass_seq every_event_seq)
  show "every_event (on_requests (two_scopes app guild))
     (cleanup_remove srv ''Number of global commands: '' (global_url app) (auth token))"
    by (rule every_event_mono [OF cleanup_remove_requests])
      (auto elim!: on_requests_mono simp: two_scopes_def dest: block_request_global)
  show "every_event (on_requests (two_scopes app guild))
     (cleanup_remove srv ''Number of guilds commands: '' (guild_url app guild) (auth token))"
    by (rule every_event_mono [OF cleanup_remove_requests])
      (auto elim!: on_requests_mono simp: two_scopes_def dest: block_request_guild)
qed simp_all

lemma paths_delete_all_commands:
  "every_event (on_requests (two_scopes app guild)) (delete_all_commands srv app guild token)"
  unfolding delete_all_commands_def Let_def
proof (intro every_event_input_seq every_event_getpass_seq every_event_seq)
  show "every_event (on_requests (two_scopes app guild))
     (delete_all srv ''Number of global commands: '' (global_url app) (auth token))"
    by (rule every_event_mono [OF delete_all_requests])
      (auto elim!: on_requests_mono simp: two_scopes_def dest: block_request_global)
  show "every_event (on_requests (two_scopes app guild))
     (delete_all srv ''Number of guilds commands: '' (guild_url app guild) (auth token))"
    by (rule every_event_mono [OF delete_all_requests])
      (auto elim!: on_requests_mono simp: two_scopes_def dest: block_request_guild)
qed simp_all

lemma paths_delete_global_cmd:
  "every_event (on_requests (\<lambda>rq. on_scope app Global GET rq \<or> on_command app Global DELETE rq))
     (delete_global_cmd srv app token)"
  unfolding delete_global_cmd_def Let_def
proof (intro every_event_input_seq every_event_getpass_seq)
  show "every_event (on_requests (\<lambda>rq. on_scope app Global GET rq \<or> on_command app Global DELETE rq))
     (delete_all srv ''Number of global commands: '' (global_url app) (auth token))"
    by (rule every_event_mono [OF delete_all_requests])
      (auto elim!: on_requests_mono dest: block_request_global)
qed simp_all

lemma paths_update_cmd:
  "every_event (on_requests (\<lambda>rq. on_scope app (Guild guild_id) GET rq
        \<or> on_command app (Guild guild_id) PATCH rq))
     (update_cmd srv repr app token guild_id cmd_name)"
  unfolding update_cmd_def Let_def
  by (intro every_event_intros)
    (auto simp: on_scope_def on_command_def guild_command_url_path guild_url_path)

lemma paths_bootsrap:
  "every_event (on_requests (on_scope app Global POST)) (bootsrap srv app token)"
  unfolding bootsrap_def Let_def
  by (intro every_event_intros) (simp_all add: post_request_def on_scope_def global_url_path)

lemma paths_create_global_commands:
  "every_event (on_requests (on_scope app Global POST)) (create_global_commands srv app token)"
  unfolding create_global_commands_def Let_def
  by (intro every_event_intros) (simp_all add: post_request_def on_scope_def global_url_path)

lemma paths_create_global_cmd:
  "every_event (on_requests (on_scope app Global POST)) (create_global_cmd srv app token)"
  unfolding create_global_cmd_def Let_def
  by (intro every_event_intros) (simp_all add: post_request_def on_scope_def global_url_path)





subsection \<open>A delete-all block whose GET returns a list\<close>

lemma delete_all_listed:
  assumes "srv s (get_request url headers) = (Reply r, s1)" "content r = Json (JArr cmds)"
  shows "outcome (delete_all srv label url headers s)
           = outcome (for_each (delete_cmd srv url headers) cmds s1)"
    and "events (delete_all srv label url headers s)
           = Http (get_request url headers) (Reply r) # Print [Lit label, Len (length cmds)]
             # events (for_each (delete_cmd srv url headers) cmds s1)"
    and "final (delete_all srv label url headers s)
           = final (for_each (delete_cmd srv url headers) cmds s1)"
  using assms
  by (simp_all add: delete_all_def outcome_seq events_seq final_seq
      call_outcome call_events call_final get_request_def)

lemma cleanup_remove_listed:
  assumes "srv s (get_request url headers) = (Reply r, s1)" "content r = Json (JArr cmds)"
  shows "outcome (cleanup_remove srv label url headers s)
           = outcome (for_each (cleanup_delete srv url headers) cmds s1)"
    and "events (cleanup_remove srv label url headers s)
           = Http (get_request url headers) (Reply r) # Print [Lit label, Len (length cmds)]
             # events (for_each (cleanup_delete srv url headers) cmds s1)"
    and "final (cleanup_remove srv label url headers s)
           = final (for_each (cleanup_delete srv url headers) cmds s1)"
  using assms
  by (simp_all add: cleanup_remove_def outcome_seq events_seq final_seq
      call_outcome call_events call_final get_request_def)

lemma id_text_Some: "id_text cmd = Some i \<longleftrightarrow> py_getitem cmd ''id'' = Inr (JStr i)"
  by (auto simp: id_text_def split: sum.splits json.splits)

lemma cleanup_delete_answered:
  assumes "always_answers srv" "id_text cmd = Some i"
  shows "outcome (cleanup_delete srv url headers cmd s) = Inr ()"
    and "requests_of (events (cleanup_delete srv url headers cmd s)) = [delete_request url headers i]"
    and "prints_of (events (cleanup_delete srv url headers cmd s)) = []"
proof -
  from assms(2) have g: "py_getitem cmd ''id'' = Inr (JStr i)"
    by (simp only: id_text_Some)
  obtain r where r: "fst (srv s (delete_request url headers i)) = Reply r"
    using call_answered [OF assms(1)] by blast
  show "outcome (cleanup_delete srv url headers cmd s) = Inr ()"
    using r unfolding cleanup_delete_def delete_request_def
    by (simp add: outcome_seq g call_outcome)
  show "requests_of (events (cleanup_delete srv url headers cmd s)) = [delete_request url headers i]"
    using r unfolding cleanup_delete_def delete_request_def
    by (simp add: events_seq g call_outcome call_events)
  show "prints_of (events (cleanup_delete srv url headers cmd s)) = []"
    using r unfolding cleanup_delete_def delete_request_def
    by (simp add: events_seq g call_outcome call_events)
qed

lemma delete_cmd_answered:
  assumes "always_answers srv" "id_text cmd = Some i" "py_getitem cmd ''name'' = Inr name"
  shows "outcome (delete_cmd srv url headers cmd s) = Inr ()"
    and "requests_of (events (delete_cmd srv url headers cmd s)) = [delete_request url headers i]"
    and "prints_of (events (delete_cmd srv url headers cmd s)) = [[Lit ''Deleting command: '', Str name]]"
proof -
  from assms(2) have g: "py_getitem cmd ''id'' = Inr (JStr i)"
    by (simp only: id_text_Some)
  obtain r where r: "fst (srv s (delete_request url headers i)) = Reply r"
    using call_answered [OF assms(1)] by blast
  show "outcome (delete_cmd srv url headers cmd s) = Inr ()"
    using r unfolding delete_cmd_def delete_request_def
    by (simp add: outcome_seq g assms(3) call_outcome)
  show "requests_of (events (delete_cmd srv url headers cmd s)) = [delete_request url headers i]"
    using r unfolding delete_cmd_def delete_request_def
    by (simp add: events_seq g assms(3) call_outcome call_events)
  show "prints_of (events (delete_cmd srv url headers cmd s)) = [[Lit ''Deleting command: '', Str name]]"
    using r unfolding delete_cmd_def delete_request_def
    by (simp add: events_seq g assms(3) call_outcome call_events)
qed

lemma cleanup_loop:
  assumes "always_answers srv" "map id_text cmds = map Some ids"
  shows "outcome (for_each (cleanup_delete srv url headers) cmds s) = Inr ()
     \<and> requests_of (events (for_each (cleanup_delete srv url headers) cmds s))
         = map (delete_request url headers) ids
     \<and> prints_of (events (for_each (cleanup_delete srv url headers) cmds s)) = []"
  using assms(2)
proof (induction cmds arbitrary: ids s)
  case Nil
  then show ?case by simp
next
  case (Cons cmd cmds)
  then obtain i ids' where ids: "ids = i # ids'" "id_text cmd = Some i"
    "map id_text cmds = map Some ids'"
    by (cases ids) auto
  note one = cleanup_delete_answered [OF assms(1) ids(2), of url headers s]
  note rest = Cons.IH [OF ids(3), of "final (cleanup_delete srv url headers cmd s)"]
  show ?case
    using one rest by (simp add: outcome_seq events_seq ids(1))
qed

lemma delete_loop:
  assumes "always_answers srv" "map id_text cmds = map Some ids"
    "map (\<lambda>cmd. py_getitem cmd ''name'') cmds = map Inr names"
  shows "outcome (for_each (delete_cmd srv url headers) cmds s) = Inr ()
     \<and> requests_of (events (for_each (delete_cmd srv url headers) cmds s))
         = map (delete_request url headers) ids
     \<and> prints_of (events (for_each (delete_cmd srv url headers) cmds s))
         = map (\<lambda>name. [Lit ''Deleting command: '', Str name]) names"
  using assms(2,3)
proof (induction cmds arbitrary: ids names s)
  case Nil
  then show ?case by simp
next
  case (Cons cmd cmds)
  then obtain i ids' where ids: "ids = i # ids'" "id_text cmd = Some i"
    "map id_text cmds = map Some ids'"
    by (cases ids) auto
  from Cons.prems(2) obtain n names' where names: "names = n # names'"
    "py_getitem cmd ''name'' = Inr n" "map (\<lambda>cmd. py_getitem cmd ''name'') cmds = map Inr names'"
    by (cases names) auto
  note one = delete_cmd_answered [OF assms(1) ids(2) names(2), of url headers s]
  note rest = Cons.IH [OF ids(3) names(3), of "final (delete_cmd srv url headers cmd s)"]
  show ?case
    using one rest by (simp add: outcome_seq events_seq ids(1) names(1))
qed

subsection \<open>Counting deletions\<close>

lemma deleted_or_not:
  "succeeded evs + failed evs = length (filter (\<lambda>rq. rq_verb rq = DELETE) (requests_of evs))"
proof (induction evs)
  case Nil
  show ?case by (simp add: succeeded_def failed_def)
next
  case (Cons ev evs)
  then show ?case
  proof (cases ev)
    case (Http rq a)
    with Cons show ?thesis
      by (cases a) (auto simp: succeeded_def failed_def)
  qed (simp_all add: succeeded_def failed_def)
qed

lemma counts_cons [simp]:
  "succeeded (Print ps # evs) = succeeded evs" "failed (Print ps # evs) = failed evs"
  "succeeded (Http (get_request url headers) a # evs) = succeeded evs"
  "failed (Http (get_request url headers) a # evs) = failed evs"
  by (cases a; simp add: succeeded_def failed_def get_request_def)+



subsection \<open>The delete-all blocks, whole\<close>

lemma no_numbers_in_deleting_lines:
  "concat (map numbers_of (map (\<lambda>name. [Lit ''Deleting command: '', Str name]) names)) = []"
  by (induction names) simp_all

lemma cleanup_remove_answered:
  assumes "always_answers srv"
    "srv s (get_request url headers) = (Reply r, s1)" "content r = Json (JArr cmds)"
    "map id_text cmds = map Some ids"
  shows "outcome (cleanup_remove srv label url headers s) = Inr ()"
    and "requests_of (events (cleanup_remove srv label url headers s))
           = get_request url headers # map (delete_request url headers) ids"
    and "prints_of (events (cleanup_remove srv label url headers s)) = [[Lit label, Len (length cmds)]]"
    and "take 2 (events (cleanup_remove srv label url headers s))
           = [Http (get_request url headers) (Reply r), Print [Lit label, Len (length cmds)]]"
  using cleanup_loop [OF assms(1,4), of url headers s1]
  by (simp_all add: cleanup_remove_listed [where srv=srv and s=s, OF assms(2,3)])

lemma delete_all_answered:
  assumes "always_answers srv"
    "srv s (get_request url headers) = (Reply r, s1)" "content r = Json (JArr cmds)"
    "map id_text cmds = map Some ids" "map (\<lambda>cmd. py_getitem cmd ''name'') cmds = map Inr names"
  shows "outcome (delete_all srv label url headers s) = Inr ()"
    and "requests_of (events (delete_all srv label url headers s))
           = get_request url headers # map (delete_request url headers) ids"
    and "prints_of (events (delete_all srv label url headers s))
           = [Lit label, Len (length cmds)]
             # map (\<lambda>name. [Lit ''Deleting command: '', Str name]) names"
    and "take 2 (events (delete_all srv label url headers s))
           = [Http (get_request url headers) (Reply r), Print [Lit label, Len (length cmds)]]"
  using delete_loop [OF assms(1,4,5), of url headers s1]
  by (simp_all add: delete_all_listed [where srv=srv and s=s, OF assms(2,3)])

lemma listed_ids_length: "map id_text cmds = map Some ids \<Longrightarrow> length ids = length cmds"
  by (metis length_map)

lemma first_request_cleanup_remove:
  "take 1 (requests_of (events (cleanup_remove srv label url headers s))) = [get_request url headers]"
  by (simp add: cleanup_remove_def events_seq call_events get_request_def)

lemma first_request_delete_all:
  "take 1 (requests_of (events (delete_all srv label url headers s))) = [get_request url headers]"
  by (simp add: delete_all_def events_seq call_events get_request_def)

text \<open>
  Claim C3. When the list request of a scope is answered with the empty list, the
  delete-all block of either script prints the count 0, issues no DELETE (the GET is its
  only request) and ends normally. So does the whole of \<^verbatim>\<open>delete_global_cmd.py\<close>, and the
  whole of \<^verbatim>\<open>cleanup.py\<close> and \<^verbatim>\<open>delete_all_commands.py\<close> when both scopes are empty.
\<close>

theorem empty_scope_deletes_nothing:
  assumes "srv s (get_request url headers) = (Reply r, s1)" "content r = Json (JArr [])"
  shows "delete_all srv label url headers s
           = (Inr (), [Http (get_request url headers) (Reply r), Print [Lit label, Len 0]], s1)
     \<and> cleanup_remove srv label url headers s
           = (Inr (), [Http (get_request url headers) (Reply r), Print [Lit label, Len 0]], s1)
     \<and> (url = global_url app \<and> headers = auth token \<longrightarrow>
          delete_global_cmd srv app token s
            = (Inr (),
               [Input ''Application id: '' app, Getpass ''Bot token: '' token,
                Http (get_request url headers) (Reply r),
                Print [Lit ''Number of global commands: '', Len 0]], s1))
     \<and> (url = global_url app \<and> headers = auth token
          \<and> srv s1 (get_request (guild_url app guild) headers) = (Reply r2, s2)
          \<and> content r2 = Json (JArr []) \<longrightarrow>
          cleanup srv app guild token s
            = (Inr (),
               [Input ''Application id: '' app, Input ''Guild id: '' guild,
                Getpass ''Bot token: '' token,
                Http (get_request url headers) (Reply r),
                Print [Lit ''Number of global commands: '', Len 0],
                Http (get_request (guild_url app guild) headers) (Reply r2),
                Print [Lit ''Number of guilds commands: '', Len 0]], s2)
          \<and> delete_all_commands srv app guild token s
            = (Inr (),
               [Input ''Application id: '' app, Input ''Guild id: '' guild,
                Getpass ''Bot token: '' token,
                Http (get_request url headers) (Reply r),
                Print [Lit ''Number of global commands: '', Len 0],
                Http (get_request (guild_url app guild) headers) (Reply r2),
                Print [Lit ''Number of guilds commands: '', Len 0]], s2))"
proof -
  have a: "delete_all srv label url headers s
      = (Inr (), [Http (get_request url headers) (Reply r), Print [Lit label, Len 0]], s1)" for label
    by (rule run_eqI) (simp_all add: delete_all_listed [where srv=srv and s=s, OF assms])
  have b: "cleanup_remove srv label url headers s
      = (Inr (), [Http (get_request url headers) (Reply r), Print [Lit label, Len 0]], s1)" for label
    by (rule run_eqI) (simp_all add: cleanup_remove_listed [where srv=srv and s=s, OF assms])
  have c: "delete_all srv label (guild_url app guild) headers s1
      = (Inr (), [Http (get_request (guild_url app guild) headers) (Reply r2), Print [Lit label, Len 0]], s2)"
    if "srv s1 (get_request (guild_url app guild) headers) = (Reply r2, s2)"
      "content r2 = Json (JArr [])" for label
    by (rule run_eqI) (simp_all add: delete_all_listed [where srv=srv and s=s1, OF that])
  have d: "cleanup_remove srv label (guild_url app guild) headers s1
      = (Inr (), [Http (get_request (guild_url app guild) headers) (Reply r2), Print [Lit label, Len 0]], s2)"
    if "srv s1 (get_request (guild_url app guild) headers) = (Reply r2, s2)"
      "content r2 = Json (JArr [])" for label
    by (rule run_eqI) (simp_all add: cleanup_remove_listed [where srv=srv and s=s1, OF that])
  show ?thesis
    using a b c d
    by (auto simp: delete_global_cmd_def cleanup_def delete_all_commands_def Let_def seq_def
        input_def getpass_def)
qed

theorem empty_scope_deletes_nothing_witness:
  "remote_step empty_remote (get_request (global_url ''9'') (auth ''t''))
     = (Reply \<lparr>status = 200, content = Json (JArr [])\<rparr>, empty_remote)
   \<and> delete_all remote_step ''Number of global commands: '' (global_url ''9'') (auth ''t'') empty_remote
     = (Inr (),
        [Http (get_request (global_url ''9'') (auth ''t''))
           (Reply \<lparr>status = 200, content = Json (JArr [])\<rparr>),
         Print [Lit ''Number of global commands: '', Len 0]], empty_remote)
   \<and> cleanup remote_step ''9'' ''123'' ''t'' empty_remote
     = (Inr (),
        [Input ''Application id: '' ''9'', Input ''Guild id: '' ''123'', Getpass ''Bot token: '' ''t'',
         Http (get_request (global_url ''9'') (auth ''t''))
           (Reply \<lparr>status = 200, content = Json (JArr [])\<rparr>),
         Print [Lit ''Number of global commands: '', Len 0],
         Http (get_request (guild_url ''9'' ''123'') (auth ''t''))
           (Reply \<lparr>status = 200, content = Json (JArr [])\<rparr>),
         Print [Lit ''Number of guilds commands: '', Len 0]], empty_remote)"
proof -
  have g1: "remote_step empty_remote (get_request (global_url ''9'') (auth ''t''))
     = (Reply \<lparr>status = 200, content = Json (JArr [])\<rparr>, empty_remote)"
    by code_simp
  have g2: "remote_step empty_remote (get_request (guild_url ''9'' ''123'') (auth ''t''))
     = (Reply \<lparr>status = 200, content = Json (JArr [])\<rparr>, empty_remote)"
    by code_simp
  have c: "content \<lparr>status = 200, content = Json (JArr [])\<rparr> = Json (JArr [])"
    by simp
  from empty_scope_deletes_nothing [where srv = remote_step and s = empty_remote, OF g1 c,
      of "''Number of global commands: ''" "''9''" "''t''" "''123''" _ empty_remote] g1 g2 c
  show ?thesis by blast
qed




lemma remote_always_answers: "always_answers remote_step"
  unfolding always_answers_def remote_step_def serve_def Let_def
  by (auto split: verb.splits option.splits json.splits prod.splits)




lemma printed_numbers_block:
  "prints_of evs = [[Lit label, Len n]] \<Longrightarrow> printed_numbers evs = [n]"
  "prints_of evs = [Lit label, Len n] # map (\<lambda>name. [Lit ''Deleting command: '', Str name]) names
   \<Longrightarrow> printed_numbers evs = [n]"
  by (simp_all add: printed_numbers_def no_numbers_in_deleting_lines)

lemma deletions_of_block:
  assumes "requests_of evs = get_request url headers # map (delete_request url headers) ids"
  shows "succeeded evs + failed evs = length ids"
  by (simp add: deleted_or_not assms get_request_def delete_request_def o_def)

text \<open>
  Claim C1, as the code has it. A delete-all block always starts with the GET on its URL.
  When that is answered with a list of commands (objects with a string id, and a name
  where the script prints it) and the remote end answers every request, the block then
  issues one DELETE per listed command and runs to its normal end whatever the statuses
  of the answers: every DELETE is counted as succeeded or failed, and there are as many as
  commands listed. The only number the block prints is the length of the fetched list,
  and it prints it straight after the GET, before any DELETE.
\<close>

theorem delete_all_lists_then_deletes_each:
  "take 1 (requests_of (events (cleanup_remove srv label url headers s))) = [get_request url headers]
   \<and> take 1 (requests_of (events (delete_all srv label url headers s))) = [get_request url headers]
   \<and> (always_answers srv \<and> srv s (get_request url headers) = (Reply r, s1)
        \<and> content r = Json (JArr cmds) \<and> map id_text cmds = map Some ids \<longrightarrow>
        outcome (cleanup_remove srv label url headers s) = Inr ()
        \<and> requests_of (events (cleanup_remove srv label url headers s))
            = get_request url headers # map (delete_request url headers) ids
        \<and> succeeded (events (cleanup_remove srv label url headers s))
            + failed (events (cleanup_remove srv label url headers s)) = length cmds
        \<and> printed_numbers (events (cleanup_remove srv label url headers s)) = [length cmds]
        \<and> take 2 (events (cleanup_remove srv label url headers s))
            = [Http (get_request url headers) (Reply r), Print [Lit label, Len (length cmds)]]
        \<and> (map (\<lambda>cmd. py_getitem cmd ''name'') cmds = map Inr names \<longrightarrow>
             outcome (delete_all srv label url headers s) = Inr ()
             \<and> requests_of (events (delete_all srv label url headers s))
                 = get_request url headers # map (delete_request url headers) ids
             \<and> succeeded (events (delete_all srv label url headers s))
                 + failed (events (delete_all srv label url headers s)) = length cmds
             \<and> printed_numbers (events (delete_all srv label url headers s)) = [length cmds]
             \<and> take 2 (events (delete_all srv label url headers s))
                 = [Http (get_request url headers) (Reply r), Print [Lit label, Len (length cmds)]]))"
proof -
  have a: "outcome (cleanup_remove srv label url headers s) = Inr ()
        \<and> requests_of (events (cleanup_remove srv label url headers s))
            = get_request url headers # map (delete_request url headers) ids
        \<and> succeeded (events (cleanup_remove srv label url headers s))
            + failed (events (cleanup_remove srv label url headers s)) = length cmds
        \<and> printed_numbers (events (cleanup_remove srv label url headers s)) = [length cmds]
        \<and> take 2 (events (cleanup_remove srv label url headers s))
            = [Http (get_request url headers) (Reply r), Print [Lit label, Len (length cmds)]]"
    if h: "always_answers srv" "srv s (get_request url headers) = (Reply r, s1)"
      "content r = Json (JArr cmds)" "map id_text cmds = map Some ids"
    using cleanup_remove_answered [where srv = srv and s = s, OF h]
      deletions_of_block [OF cleanup_remove_answered (2) [where srv = srv and s = s, OF h]]
      printed_numbers_block (1) [OF cleanup_remove_answered (3) [where srv = srv and s = s, OF h]]
      listed_ids_length [OF h(4)]
    by simp
  have b: "outcome (delete_all srv label url headers s) = Inr ()
             \<and> requests_of (events (delete_all srv label url headers s))
                 = get_request url headers # map (delete_request url headers) ids
             \<and> succeeded (events (delete_all srv label url headers s))
                 + failed (events (delete_all srv label url headers s)) = length cmds
             \<and> printed_numbers (events (delete_all srv label url headers s)) = [length cmds]
             \<and> take 2 (events (delete_all srv label url headers s))
                 = [Http (get_request url headers) (Reply r), Print [Lit label, Len (length cmds)]]"
    if h: "always_answers srv" "srv s (get_request url headers) = (Reply r, s1)"
      "content r = Json (JArr cmds)" "map id_text cmds = map Some ids"
      "map (\<lambda>cmd. py_getitem cmd ''name'') cmds = map Inr names"
    using delete_all_answered [where srv = srv and s = s, OF h]
      deletions_of_block [OF delete_all_answered (2) [where srv = srv and s = s, OF h]]
      printed_numbers_block (2) [OF delete_all_answered (3) [where srv = srv and s = s, OF h]]
      listed_ids_length [OF h(4)]
    by simp
  show ?thesis
    using a b first_request_cleanup_remove [of srv label url headers s]
      first_request_delete_all [of srv label url headers s]
    by blast
qed

theorem delete_all_lists_then_deletes_each_witness:
  "always_answers remote_step
   \<and> remote_step contested_remote (get_request (global_url ''9'') (auth ''t''))
       = (Reply \<lparr>status = 200, content = Json (JArr [sample_a])\<rparr>,
          contested_remote\<lparr>rivals := [[(global_url ''9'', ''1'')]]\<rparr>)
   \<and> map id_text [sample_a] = map Some [''1'']
   \<and> delete_statuses (events (cleanup_remove remote_step ''Number of global commands: ''
         (global_url ''9'') (auth ''t'') contested_remote)) = [404]
   \<and> outcome (cleanup_remove remote_step ''Number of global commands: ''
         (global_url ''9'') (auth ''t'') contested_remote) = Inr ()
   \<and> requests_of (events (cleanup_remove remote_step ''Number of global commands: ''
         (global_url ''9'') (auth ''t'') contested_remote))
       = [get_request (global_url ''9'') (auth ''t''),
          delete_request (global_url ''9'') (auth ''t'') ''1'']
   \<and> succeeded (events (cleanup_remove remote_step ''Number of global commands: ''
         (global_url ''9'') (auth ''t'') contested_remote))
      + failed (events (cleanup_remove remote_step ''Number of global commands: ''
         (global_url ''9'') (auth ''t'') contested_remote)) = 1
   \<and> printed_numbers (events (cleanup_remove remote_step ''Number of global commands: ''
         (global_url ''9'') (auth ''t'') contested_remote)) = [1]"
proof -
  have g: "remote_step contested_remote (get_request (global_url ''9'') (auth ''t''))
       = (Reply \<lparr>status = 200, content = Json (JArr [sample_a])\<rparr>,
          contested_remote\<lparr>rivals := [[(global_url ''9'', ''1'')]]\<rparr>)"
    by code_simp
  have c: "content \<lparr>status = 200, content = Json (JArr [sample_a])\<rparr> = Json (JArr [sample_a])"
    by simp
  have i: "map id_text [sample_a] = map Some [''1'']"
    by code_simp
  have d: "delete_statuses (events (cleanup_remove remote_step ''Number of global commands: ''
         (global_url ''9'') (auth ''t'') contested_remote)) = [404]"
    by code_simp
  have l: "length [sample_a] = 1"
    by simp
  from delete_all_lists_then_deletes_each [of remote_step "''Number of global commands: ''"
      "global_url ''9''" "auth ''t''" contested_remote _ _ "[sample_a]" "[''1'']"]
    remote_always_answers g c i d
  show ?thesis unfolding l list.map by blast
qed

text \<open>
  Claim C1, as stated, fails: no count of successful and failed deletions is reported.
  \<^verbatim>\<open>delete_global_cmd.py\<close> runs against a scope with one command whose DELETE is answered
  404 (somebody else removed it meanwhile). Nothing succeeded and one deletion failed, but
  the only number printed is 1, the length of the list.
\<close>

theorem delete_all_reports_no_outcome_counts:
  "delete_statuses (events (delete_global_cmd remote_step ''9'' ''t'' contested_remote)) = [404]
   \<and> succeeded (events (delete_global_cmd remote_step ''9'' ''t'' contested_remote)) = 0
   \<and> failed (events (delete_global_cmd remote_step ''9'' ''t'' contested_remote)) = 1
   \<and> printed_numbers (events (delete_global_cmd remote_step ''9'' ''t'' contested_remote)) = [1]
   \<and> \<not> reports_counts (events (delete_global_cmd remote_step ''9'' ''t'' contested_remote))"
  by code_simp



subsection \<open>\<^verbatim>\<open>update_cmd.py\<close> when no listed command has the name\<close>

lemma update_first_no_match:
  assumes "map (\<lambda>cmd. py_getitem cmd ''name'') cmds = map Inr names" "JStr cmd_name \<notin> set names"
  shows "update_first srv repr app guild_id cmd_name headers cmds s = (Inr (), [], s)"
  using assms
proof (induction cmds arbitrary: names)
  case Nil
  show ?case by (simp add: skip_def)
next
  case (Cons cmd cmds)
  then obtain n names' where n: "names = n # names'" "py_getitem cmd ''name'' = Inr n"
    "map (\<lambda>cmd. py_getitem cmd ''name'') cmds = map Inr names'"
    by (cases names) auto
  with Cons.prems(2) have "n \<noteq> JStr cmd_name" "JStr cmd_name \<notin> set names'"
    by auto
  with Cons.IH [OF n(3)] n(2) show ?case
    by (simp add: seq_def eval_def)
qed

text \<open>
  Claim C4, as the code has it. When the GET on the guild's commands is answered with a
  list of commands, each with a name, and none of the names is the one \<^verbatim>\<open>update_cmd.py\<close>
  looks for, the script sends the GET and nothing else: no PATCH, no output, a normal end,
  and the remote end in the state the GET left it in. Unless the GET itself was answered
  with a NotFoundError, no NotFoundError occurs.
\<close>

theorem update_of_unlisted_name_sends_nothing:
  assumes "srv s (get_request (guild_url app guild_id) (auth token)) = (Reply r, s1)"
    "content r = Json (JArr cmds)"
    "map (\<lambda>cmd. py_getitem cmd ''name'') cmds = map Inr names" "JStr cmd_name \<notin> set names"
  shows "update_cmd srv repr app token guild_id cmd_name s
           = (Inr (), [Http (get_request (guild_url app guild_id) (auth token)) (Reply r)], s1)
     \<and> (classify (status r) \<noteq> Some NotFoundError \<longrightarrow>
          \<not> fails_with NotFoundError (update_cmd srv repr app token guild_id cmd_name s))"
proof -
  have run: "update_cmd srv repr app token guild_id cmd_name s
           = (Inr (), [Http (get_request (guild_url app guild_id) (auth token)) (Reply r)], s1)"
    using assms(1,2)
    by (simp add: update_cmd_def Let_def seq_def call_def eval_def get_request_def
        update_first_no_match [OF assms(3,4)])
  show ?thesis
    unfolding run by (auto simp: fails_with_def outcome_def events_def split: option.splits)
qed

theorem update_of_unlisted_name_sends_nothing_witness:
  "remote_step calm_remote (get_request (guild_url ''9'' ''123'') (auth ''t''))
     = (Reply \<lparr>status = 200, content = Json (JArr [sample_b, sample_c])\<rparr>, calm_remote)
   \<and> map (\<lambda>cmd. py_getitem cmd ''name'') [sample_b, sample_c] = map Inr [JStr ''beta'', JStr ''gamma'']
   \<and> JStr ''delta'' \<notin> set [JStr ''beta'', JStr ''gamma'']
   \<and> update_cmd remote_step (\<lambda>v. []) ''9'' ''t'' ''123'' ''delta'' calm_remote
     = (Inr (),
        [Http (get_request (guild_url ''9'' ''123'') (auth ''t''))
           (Reply \<lparr>status = 200, content = Json (JArr [sample_b, sample_c])\<rparr>)],
        calm_remote)"
proof -
  have g: "remote_step calm_remote (get_request (guild_url ''9'' ''123'') (auth ''t''))
     = (Reply \<lparr>status = 200, content = Json (JArr [sample_b, sample_c])\<rparr>, calm_remote)"
    by code_simp
  have c: "content \<lparr>status = 200, content = Json (JArr [sample_b, sample_c])\<rparr>
     = Json (JArr [sample_b, sample_c])"
    by simp
  have n: "map (\<lambda>cmd. py_getitem cmd ''name'') [sample_b, sample_c]
     = map Inr [JStr ''beta'', JStr ''gamma'']"
    by code_simp
  have d: "JStr ''delta'' \<notin> set [JStr ''beta'', JStr ''gamma'']"
    by simp
  from update_of_unlisted_name_sends_nothing [where srv = remote_step and s = calm_remote,
      OF g c n d, of "\<lambda>v. []"] g n d
  show ?thesis by blast
qed

text \<open>
  Claim C4, as stated, fails: the update of a name that is not listed does not fail with
  NotFoundError. \<^verbatim>\<open>update_cmd.py\<close> looking for \<^verbatim>\<open>delta\<close> in a guild that lists \<^verbatim>\<open>beta\<close> and
  \<^verbatim>\<open>gamma\<close> ends normally after its GET, which was answered 200.
\<close>

theorem update_of_unlisted_name_is_no_error:
  "outcome (update_cmd remote_step (\<lambda>v. []) ''9'' ''t'' ''123'' ''delta'' calm_remote) = Inr ()
   \<and> map rq_verb (requests_of (events
        (update_cmd remote_step (\<lambda>v. []) ''9'' ''t'' ''123'' ''delta'' calm_remote))) = [GET]
   \<and> reply_kinds (events
        (update_cmd remote_step (\<lambda>v. []) ''9'' ''t'' ''123'' ''delta'' calm_remote)) = []
   \<and> \<not> fails_with NotFoundError
        (update_cmd remote_step (\<lambda>v. []) ''9'' ''t'' ''123'' ''delta'' calm_remote)"
  by code_simp



subsection \<open>Fetching before mutating\<close>

lemma strip_prefix_append: "strip_prefix p (p @ x) = Some x"
  by (induction p) simp_all

lemma within_command: "within u (u @ ''/'' @ i)" "within u (u @ CHR ''/'' # i)"
  using strip_prefix_append [of "u @ ''/''" i] by (simp_all add: within_def)

lemma events_input_seq: "events (seq (input p a) f s) = Input p a # events (f a s)"
  by (simp add: events_seq)

lemma events_getpass_seq: "events (seq (getpass p a) f s) = Getpass p a # events (f a s)"
  by (simp add: events_seq)

lemma fetched_first_mono:
  "fetched_first seen rqs \<Longrightarrow> set seen \<subseteq> set seen' \<Longrightarrow> fetched_first seen' rqs"
proof (induction rqs arbitrary: seen seen')
  case Nil
  show ?case by simp
next
  case (Cons rq rqs)
  show ?case
  proof (cases "rq_verb rq = GET")
    case True
    with Cons.prems have "fetched_first (rq_url rq # seen) rqs" by simp
    from Cons.IH [OF this, of "rq_url rq # seen'"] Cons.prems(2) True show ?thesis
      by auto
  next
    case False
    with Cons.prems have "list_ex (\<lambda>u. within u (rq_url rq)) seen" "fetched_first seen rqs"
      by simp_all
    with Cons.IH [OF this(2) Cons.prems(2)] Cons.prems(2) False show ?thesis
      by (auto simp: list_ex_iff)
  qed
qed

lemma fetched_first_append:
  "fetched_first seen xs \<Longrightarrow> fetched_first [] ys \<Longrightarrow> fetched_first seen (xs @ ys)"
proof (induction xs arbitrary: seen)
  case Nil
  then show ?case using fetched_first_mono [of "[]" ys seen] by simp
next
  case (Cons rq xs)
  then show ?case by (cases "rq_verb rq = GET") simp_all
qed

lemma fetched_first_in_scope:
  assumes "list_all (\<lambda>rq. (rq_verb rq = GET \<and> rq_url rq = url)
              \<or> (rq_verb rq \<noteq> GET \<and> (\<exists>i. rq_url rq = url @ ''/'' @ i))) rqs"
    "url \<in> set seen"
  shows "fetched_first seen rqs"
  using assms
proof (induction rqs arbitrary: seen)
  case Nil
  show ?case by simp
next
  case (Cons rq rqs)
  then show ?case
    by (cases "rq_verb rq = GET") (auto simp: list_ex_iff intro!: bexI [where x = url] within_command)
qed

lemma fetched_first_block:
  assumes "\<forall>rq\<in>set rqs. (rq_verb rq = GET \<and> rq_url rq = url)
              \<or> (rq_verb rq \<noteq> GET \<and> (\<exists>i. rq_url rq = url @ ''/'' @ i))"
    "take 1 rqs = [get_request url headers]"
  shows "fetched_first [] rqs"
proof (cases rqs)
  case Nil
  with assms(2) show ?thesis by simp
next
  case (Cons rq rest)
  with assms(2) have rq: "rq = get_request url headers" by simp
  from assms(1) Cons have "list_all (\<lambda>rq. (rq_verb rq = GET \<and> rq_url rq = url)
              \<or> (rq_verb rq \<noteq> GET \<and> (\<exists>i. rq_url rq = url @ ''/'' @ i))) rest"
    by (simp add: list_all_iff)
  from fetched_first_in_scope [OF this, of "[url]"] show ?thesis
    by (simp add: Cons rq get_request_def)
qed

lemma fetched_first_cleanup_remove:
  "fetched_first [] (requests_of (events (cleanup_remove srv label url headers s)))"
proof (rule fetched_first_block)
  show "take 1 (requests_of (events (cleanup_remove srv label url headers s)))
      = [get_request url headers]"
    by (rule first_request_cleanup_remove)
  show "\<forall>rq\<in>set (requests_of (events (cleanup_remove srv label url headers s))).
      (rq_verb rq = GET \<and> rq_url rq = url) \<or> (rq_verb rq \<noteq> GET \<and> (\<exists>i. rq_url rq = url @ ''/'' @ i))"
    using every_request [OF cleanup_remove_requests [where url = url and srv = srv and label = label
        and headers = headers], where s = s]
    by (auto simp: block_request_def)
qed

lemma fetched_first_delete_all:
  "fetched_first [] (requests_of (events (delete_all srv label url headers s)))"
proof (rule fetched_first_block)
  show "take 1 (requests_of (events (delete_all srv label url headers s)))
      = [get_request url headers]"
    by (rule first_request_delete_all)
  show "\<forall>rq\<in>set (requests_of (events (delete_all srv label url headers s))).
      (rq_verb rq = GET \<and> rq_url rq = url) \<or> (rq_verb rq \<noteq> GET \<and> (\<exists>i. rq_url rq = url @ ''/'' @ i))"
    using every_request [OF delete_all_requests [where url = url and srv = srv and label = label
        and headers = headers], where s = s]
    by (auto simp: block_request_def)
qed

lemma requests_of_two:
  "requests_of (events (seq m (\<lambda>_. k) s))
     = requests_of (events (m s))
       @ (case outcome (m s) of Inl e \<Rightarrow> [] | Inr a \<Rightarrow> requests_of (events (k (final (m s)))))"
  by (simp add: events_seq split: sum.splits)

lemma fetched_first_two:
  assumes "\<And>s. fetched_first [] (requests_of (events (m s)))"
    "\<And>s. fetched_first [] (requests_of (events (k s)))"
  shows "fetched_first [] (requests_of (events (seq m (\<lambda>_. k) s)))"
  unfolding requests_of_two
  by (cases "outcome (m s)") (simp_all add: assms fetched_first_append)

lemma fetched_first_cleanup:
  "fetched_first [] (requests_of (events (cleanup srv app guild token s)))"
  unfolding cleanup_def Let_def events_input_seq events_getpass_seq requests_of.simps
  by (intro fetched_first_two fetched_first_cleanup_remove)

lemma fetched_first_delete_all_commands:
  "fetched_first [] (requests_of (events (delete_all_commands srv app guild token s)))"
  unfolding delete_all_commands_def Let_def events_input_seq events_getpass_seq requests_of.simps
  by (intro fetched_first_two fetched_first_delete_all)

lemma fetched_first_delete_global_cmd:
  "fetched_first [] (requests_of (events (delete_global_cmd srv app token s)))"
  unfolding delete_global_cmd_def Let_def events_input_seq events_getpass_seq requests_of.simps
  by (rule fetched_first_delete_all)

lemma first_request_update_cmd:
  "take 1 (requests_of (events (update_cmd srv repr app token guild_id cmd_name s)))
     = [get_request (guild_url app guild_id) (auth token)]"
  by (simp add: update_cmd_def Let_def events_seq call_events get_request_def)

lemma fetched_first_update_cmd:
  "fetched_first [] (requests_of (events (update_cmd srv repr app token guild_id cmd_name s)))"
proof (rule fetched_first_block)
  show "take 1 (requests_of (events (update_cmd srv repr app token guild_id cmd_name s)))
      = [get_request (guild_url app guild_id) (auth token)]"
    by (rule first_request_update_cmd)
  show "\<forall>rq\<in>set (requests_of (events (update_cmd srv repr app token guild_id cmd_name s))).
      (rq_verb rq = GET \<and> rq_url rq = guild_url app guild_id)
      \<or> (rq_verb rq \<noteq> GET \<and> (\<exists>i. rq_url rq = guild_url app guild_id @ ''/'' @ i))"
    using every_request [OF paths_update_cmd [where app = app and guild_id = guild_id and srv = srv
        and repr = repr and token = token and cmd_name = cmd_name], where s = s]
    by (auto simp: on_scope_def on_command_def guild_url_path)
qed

text \<open>
  Claim C5, as the code has it. The four scripts that delete or update, \<^verbatim>\<open>cleanup.py\<close>,
  \<^verbatim>\<open>delete_all_commands.py\<close>, \<^verbatim>\<open>delete_global_cmd.py\<close> and \<^verbatim>\<open>update_cmd.py\<close>, send no
  DELETE or PATCH to a scope before they have sent a GET for the list of that scope,
  whatever the remote end answers. The three scripts that create, \<^verbatim>\<open>bootsrap.py\<close>,
  \<^verbatim>\<open>create_global_commands.py\<close> and \<^verbatim>\<open>create_global_cmd.py\<close>, send POSTs and nothing
  else: they never fetch the list.
\<close>

theorem deleting_and_updating_scripts_fetch_first:
  "fetched_first [] (requests_of (events (cleanup srv app guild token s)))
   \<and> fetched_first [] (requests_of (events (delete_all_commands srv app guild token s)))
   \<and> fetched_first [] (requests_of (events (delete_global_cmd srv app token s)))
   \<and> fetched_first [] (requests_of (events (update_cmd srv repr app token guild cmd_name s)))
   \<and> list_all (\<lambda>rq. rq_verb rq = POST) (requests_of (events (bootsrap srv app token s)))
   \<and> list_all (\<lambda>rq. rq_verb rq = POST) (requests_of (events (create_global_commands srv app token s)))
   \<and> list_all (\<lambda>rq. rq_verb rq = POST) (requests_of (events (create_global_cmd srv app token s)))"
  using every_request [OF paths_bootsrap [where srv = srv and app = app and token = token], where s = s]
    every_request [OF paths_create_global_commands [where srv = srv and app = app and token = token], where s = s]
    every_request [OF paths_create_global_cmd [where srv = srv and app = app and token = token], where s = s]
  by (simp add: fetched_first_cleanup fetched_first_delete_all_commands
      fetched_first_delete_global_cmd fetched_first_update_cmd list_all_iff on_scope_def)

theorem deleting_and_updating_scripts_fetch_first_witness:
  "map rq_verb (requests_of (events (cleanup remote_step ''9'' ''123'' ''t'' calm_remote)))
     = [GET, DELETE, GET, DELETE, DELETE]
   \<and> fetched_first [] (requests_of (events (cleanup remote_step ''9'' ''123'' ''t'' calm_remote)))
   \<and> map rq_verb (requests_of (events
        (update_cmd remote_step (\<lambda>v. []) ''9'' ''t'' ''123'' ''gamma'' calm_remote))) = [GET, PATCH]
   \<and> fetched_first [] (requests_of (events
        (update_cmd remote_step (\<lambda>v. []) ''9'' ''t'' ''123'' ''gamma'' calm_remote)))
   \<and> length (requests_of (events (bootsrap remote_step ''9'' ''t'' calm_remote))) = 3
   \<and> list_all (\<lambda>rq. rq_verb rq = POST) (requests_of (events (bootsrap remote_step ''9'' ''t'' calm_remote)))"
proof -
  have "map rq_verb (requests_of (events (cleanup remote_step ''9'' ''123'' ''t'' calm_remote)))
     = [GET, DELETE, GET, DELETE, DELETE]"
    by code_simp
  moreover have "map rq_verb (requests_of (events
        (update_cmd remote_step (\<lambda>v. []) ''9'' ''t'' ''123'' ''gamma'' calm_remote))) = [GET, PATCH]"
    by code_simp
  moreover have "length (requests_of (events (bootsrap remote_step ''9'' ''t'' calm_remote))) = 3"
    by code_simp
  moreover note deleting_and_updating_scripts_fetch_first
    [of remote_step "''9''" "''123''" "''t''" calm_remote "\<lambda>v. []" "''gamma''"]
  ultimately show ?thesis by blast
qed

text \<open>
  Claim C5, as stated, fails: \<^verbatim>\<open>bootsrap.py\<close> mutates the global scope with three POSTs
  and no GET before them.
\<close>

theorem bootsrap_creates_without_fetching:
  "map rq_verb (requests_of (events (bootsrap remote_step ''9'' ''t'' calm_remote)))
     = [POST, POST, POST]
   \<and> \<not> fetched_first [] (requests_of (events (bootsrap remote_step ''9'' ''t'' calm_remote)))"
  by code_simp



subsection \<open>Prompts\<close>

lemma no_prompts:
  assumes "every_event (\<lambda>ev. \<not> is_prompt ev) m"
  shows "prompts_of (events (m s)) = []"
proof -
  have "list_all (\<lambda>ev. \<not> is_prompt ev) evs \<Longrightarrow> prompts_of evs = []" for evs
    by (induction evs rule: prompts_of.induct) simp_all
  with assms show ?thesis unfolding every_event_def by blast
qed

lemma quiet_post_print:
  "every_event (\<lambda>ev. \<not> is_prompt ev) (post_print srv url headers payload label)"
  by (intro every_event_intros) simp_all

lemma quiet_cleanup_remove:
  "every_event (\<lambda>ev. \<not> is_prompt ev) (cleanup_remove srv label url headers)"
  unfolding cleanup_remove_def cleanup_delete_def
  by (intro every_event_intros) simp_all

lemma quiet_delete_all:
  "every_event (\<lambda>ev. \<not> is_prompt ev) (delete_all srv label url headers)"
  unfolding delete_all_def delete_cmd_def
  by (intro every_event_intros) simp_all

lemma quiet_update_cmd:
  "every_event (\<lambda>ev. \<not> is_prompt ev) (update_cmd srv repr app token guild_id cmd_name)"
  unfolding update_cmd_def Let_def
  by (intro every_event_intros) simp_all

lemma quiet_create_global_cmd:
  "every_event (\<lambda>ev. \<not> is_prompt ev) (create_global_cmd srv app token)"
  unfolding create_global_cmd_def Let_def
  by (intro every_event_seq quiet_post_print)

lemma prompts_bootsrap:
  "\<exists>evs. events (bootsrap srv app token s)
       = Input ''Application id: '' app # Getpass ''Bot token: '' token # evs
     \<and> prompts_of evs = []"
  unfolding bootsrap_def Let_def events_input_seq events_getpass_seq
  by (rule exI, rule conjI, rule refl) (intro no_prompts every_event_seq quiet_post_print)

lemma prompts_create_global_commands:
  "\<exists>evs. events (create_global_commands srv app token s)
       = Input ''Application id: '' app # Getpass ''Bot token: '' token # evs
     \<and> prompts_of evs = []"
  unfolding create_global_commands_def Let_def events_input_seq events_getpass_seq
  by (rule exI, rule conjI, rule refl) (intro no_prompts every_event_seq quiet_post_print)

lemma prompts_delete_global_cmd:
  "\<exists>evs. events (delete_global_cmd srv app token s)
       = Input ''Application id: '' app # Getpass ''Bot token: '' token # evs
     \<and> prompts_of evs = []"
  unfolding delete_global_cmd_def Let_def events_input_seq events_getpass_seq
  by (rule exI, rule conjI, rule refl) (intro no_prompts quiet_delete_all)

lemma prompts_cleanup:
  "\<exists>evs. events (cleanup srv app guild token s)
       = Input ''Application id: '' app # Input ''Guild id: '' guild
         # Getpass ''Bot token: '' token # evs
     \<and> prompts_of evs = []"
  unfolding cleanup_def Let_def events_input_seq events_getpass_seq
  by (rule exI, rule conjI, rule refl) (intro no_prompts every_event_seq quiet_cleanup_remove)

lemma prompts_delete_all_commands:
  "\<exists>evs. events (delete_all_commands srv app guild token s)
       = Input ''Application id: '' app # Input ''Guild id: '' guild
         # Getpass ''Bot token: '' token # evs
     \<and> prompts_of evs = []"
  unfolding delete_all_commands_def Let_def events_input_seq events_getpass_seq
  by (rule exI, rule conjI, rule refl) (intro no_prompts every_event_seq quiet_delete_all)

text \<open>
  Claim C6, as the code has it. Five scripts begin by prompting: \<^verbatim>\<open>bootsrap.py\<close>,
  \<^verbatim>\<open>create_global_commands.py\<close> and \<^verbatim>\<open>delete_global_cmd.py\<close> ask for the application id
  and then, without echo, for the bot token; \<^verbatim>\<open>cleanup.py\<close> and \<^verbatim>\<open>delete_all_commands.py\<close>
  ask for the guild id in between. These are the first things they do and their only
  prompts, and what was typed is what they use: every request of theirs carries the token
  that was typed and goes to a URL made of the application id, and guild id, that were
  typed. \<^verbatim>\<open>update_cmd.py\<close> and \<^verbatim>\<open>create_global_cmd.py\<close> prompt for nothing: their
  credentials are whatever is assigned in the script's text.
\<close>

theorem which_scripts_prompt:
  "take 2 (events (bootsrap srv app token s))
     = [Input ''Application id: '' app, Getpass ''Bot token: '' token]
   \<and> prompts_of (events (bootsrap srv app token s))
     = [Input ''Application id: '' app, Getpass ''Bot token: '' token]
   \<and> take 2 (events (create_global_commands srv app token s))
     = [Input ''Application id: '' app, Getpass ''Bot token: '' token]
   \<and> prompts_of (events (create_global_commands srv app token s))
     = [Input ''Application id: '' app, Getpass ''Bot token: '' token]
   \<and> take 2 (events (delete_global_cmd srv app token s))
     = [Input ''Application id: '' app, Getpass ''Bot token: '' token]
   \<and> prompts_of (events (delete_global_cmd srv app token s))
     = [Input ''Application id: '' app, Getpass ''Bot token: '' token]
   \<and> take 3 (events (cleanup srv app guild token s))
     = [Input ''Application id: '' app, Input ''Guild id: '' guild, Getpass ''Bot token: '' token]
   \<and> prompts_of (events (cleanup srv app guild token s))
     = [Input ''Application id: '' app, Input ''Guild id: '' guild, Getpass ''Bot token: '' token]
   \<and> take 3 (events (delete_all_commands srv app guild token s))
     = [Input ''Application id: '' app, Input ''Guild id: '' guild, Getpass ''Bot token: '' token]
   \<and> prompts_of (events (delete_all_commands srv app guild token s))
     = [Input ''Application id: '' app, Input ''Guild id: '' guild, Getpass ''Bot token: '' token]
   \<and> (\<forall>rq\<in>set (requests_of (events (bootsrap srv app token s))).
        rq_headers rq = [(''Authorization'', ''Bot '' @ token)] \<and> rq_url rq = global_url app)
   \<and> (\<forall>rq\<in>set (requests_of (events (create_global_commands srv app token s))).
        rq_headers rq = [(''Authorization'', ''Bot '' @ token)] \<and> rq_url rq = global_url app)
   \<and> (\<forall>rq\<in>set (requests_of (events (delete_global_cmd srv app token s))).
        rq_headers rq = [(''Authorization'', ''Bot '' @ token)]
        \<and> (rq_url rq = global_url app \<or> (\<exists>i. rq_url rq = global_url app @ ''/'' @ i)))
   \<and> (\<forall>rq\<in>set (requests_of (events (cleanup srv app guild token s))).
        rq_headers rq = [(''Authorization'', ''Bot '' @ token)]
        \<and> (rq_url rq = global_url app \<or> (\<exists>i. rq_url rq = global_url app @ ''/'' @ i)
             \<or> rq_url rq = guild_url app guild
             \<or> (\<exists>i. rq_url rq = guild_url app guild @ ''/'' @ i)))
   \<and> (\<forall>rq\<in>set (requests_of (events (delete_all_commands srv app guild token s))).
        rq_headers rq = [(''Authorization'', ''Bot '' @ token)]
        \<and> (rq_url rq = global_url app \<or> (\<exists>i. rq_url rq = global_url app @ ''/'' @ i)
             \<or> rq_url rq = guild_url app guild
             \<or> (\<exists>i. rq_url rq = guild_url app guild @ ''/'' @ i)))
   \<and> prompts_of (events (update_cmd srv repr app token guild cmd_name s)) = []
   \<and> prompts_of (events (create_global_cmd srv app token s)) = []"
proof -
  obtain e1 e2 e3 e4 e5 where
    "events (bootsrap srv app token s)
       = Input ''Application id: '' app # Getpass ''Bot token: '' token # e1" "prompts_of e1 = []"
    "events (create_global_commands srv app token s)
       = Input ''Application id: '' app # Getpass ''Bot token: '' token # e2" "prompts_of e2 = []"
    "events (delete_global_cmd srv app token s)
       = Input ''Application id: '' app # Getpass ''Bot token: '' token # e3" "prompts_of e3 = []"
    "events (cleanup srv app guild token s)
       = Input ''Application id: '' app # Input ''Guild id: '' guild
         # Getpass ''Bot token: '' token # e4" "prompts_of e4 = []"
    "events (delete_all_commands srv app guild token s)
       = Input ''Application id: '' app # Input ''Guild id: '' guild
         # Getpass ''Bot token: '' token # e5" "prompts_of e5 = []"
    using prompts_bootsrap [of srv app token s] prompts_create_global_commands [of srv app token s]
      prompts_delete_global_cmd [of srv app token s] prompts_cleanup [of srv app guild token s]
      prompts_delete_all_commands [of srv app guild token s]
    by blast
  then have p: "take 2 (events (bootsrap srv app token s))
     = [Input ''Application id: '' app, Getpass ''Bot token: '' token]
   \<and> prompts_of (events (bootsrap srv app token s))
     = [Input ''Application id: '' app, Getpass ''Bot token: '' token]
   \<and> take 2 (events (create_global_commands srv app token s))
     = [Input ''Application id: '' app, Getpass ''Bot token: '' token]
   \<and> prompts_of (events (create_global_commands srv app token s))
     = [Input ''Application id: '' app, Getpass ''Bot token: '' token]
   \<and> take 2 (events (delete_global_cmd srv app token s))
     = [Input ''Application id: '' app, Getpass ''Bot token: '' token]
   \<and> prompts_of (events (delete_global_cmd srv app token s))
     = [Input ''Application id: '' app, Getpass ''Bot token: '' token]
   \<and> take 3 (events (cleanup srv app guild token s))
     = [Input ''Application id: '' app, Input ''Guild id: '' guild, Getpass ''Bot token: '' token]
   \<and> prompts_of (events (cleanup srv app guild token s))
     = [Input ''Application id: '' app, Input ''Guild id: '' guild, Getpass ''Bot token: '' token]
   \<and> take 3 (events (delete_all_commands srv app guild token s))
     = [Input ''Application id: '' app, Input ''Guild id: '' guild, Getpass ''Bot token: '' token]
   \<and> prompts_of (events (delete_all_commands srv app guild token s))
     = [Input ''Application id: '' app, Input ''Guild id: '' guild, Getpass ''Bot token: '' token]
   \<and> prompts_of (events (update_cmd srv repr app token guild cmd_name s)) = []
   \<and> prompts_of (events (create_global_cmd srv app token s)) = []"
    by (simp add: no_prompts [OF quiet_update_cmd] no_prompts [OF quiet_create_global_cmd]
        numeral_2_eq_2 numeral_3_eq_3)
  have q1: "\<forall>rq\<in>set (requests_of (events (bootsrap srv app token s))).
        rq_headers rq = [(''Authorization'', ''Bot '' @ token)] \<and> rq_url rq = global_url app"
    using every_request [OF auth_bootsrap [where srv = srv and app = app and token = token],
        where s = s]
      every_request [OF paths_bootsrap [where srv = srv and app = app and token = token],
        where s = s]
    unfolding auth_def on_scope_def global_url_path by blast
  have q2: "\<forall>rq\<in>set (requests_of (events (create_global_commands srv app token s))).
        rq_headers rq = [(''Authorization'', ''Bot '' @ token)] \<and> rq_url rq = global_url app"
    using every_request [OF auth_create_global_commands [where srv = srv and app = app
          and token = token], where s = s]
      every_request [OF paths_create_global_commands [where srv = srv and app = app
          and token = token], where s = s]
    unfolding auth_def on_scope_def global_url_path by blast
  have q3: "\<forall>rq\<in>set (requests_of (events (delete_global_cmd srv app token s))).
        rq_headers rq = [(''Authorization'', ''Bot '' @ token)]
        \<and> (rq_url rq = global_url app \<or> (\<exists>i. rq_url rq = global_url app @ ''/'' @ i))"
    using every_request [OF auth_delete_global_cmd [where srv = srv and app = app
          and token = token], where s = s]
      every_request [OF paths_delete_global_cmd [where srv = srv and app = app
          and token = token], where s = s]
    unfolding auth_def on_scope_def on_command_def global_url_path append_assoc by blast
  have q4: "\<forall>rq\<in>set (requests_of (events (cleanup srv app guild token s))).
        rq_headers rq = [(''Authorization'', ''Bot '' @ token)]
        \<and> (rq_url rq = global_url app \<or> (\<exists>i. rq_url rq = global_url app @ ''/'' @ i)
             \<or> rq_url rq = guild_url app guild
             \<or> (\<exists>i. rq_url rq = guild_url app guild @ ''/'' @ i))"
    using every_request [OF auth_cleanup [where srv = srv and app = app and guild = guild
          and token = token], where s = s]
      every_request [OF paths_cleanup [where srv = srv and app = app and guild = guild
          and token = token], where s = s]
    unfolding auth_def two_scopes_def on_scope_def on_command_def global_url_path guild_url_path
      append_assoc
    by blast
  have q5: "\<forall>rq\<in>set (requests_of (events (delete_all_commands srv app guild token s))).
        rq_headers rq = [(''Authorization'', ''Bot '' @ token)]
        \<and> (rq_url rq = global_url app \<or> (\<exists>i. rq_url rq = global_url app @ ''/'' @ i)
             \<or> rq_url rq = guild_url app guild
             \<or> (\<exists>i. rq_url rq = guild_url app guild @ ''/'' @ i))"
    using every_request [OF auth_delete_all_commands [where srv = srv and app = app
          and guild = guild and token = token], where s = s]
      every_request [OF paths_delete_all_commands [where srv = srv and app = app
          and guild = guild and token = token], where s = s]
    unfolding auth_def two_scopes_def on_scope_def on_command_def global_url_path guild_url_path
      append_assoc
    by blast
  show ?thesis
    using p q1 q2 q3 q4 q5 by blast
qed

theorem which_scripts_prompt_witness:
  "take 3 (events (cleanup remote_step ''9'' ''123'' ''t'' calm_remote))
     = [Input ''Application id: '' ''9'', Input ''Guild id: '' ''123'', Getpass ''Bot token: '' ''t'']
   \<and> prompts_of (events (cleanup remote_step ''9'' ''123'' ''t'' calm_remote))
     = [Input ''Application id: '' ''9'', Input ''Guild id: '' ''123'', Getpass ''Bot token: '' ''t'']
   \<and> length (requests_of (events (cleanup remote_step ''9'' ''123'' ''t'' calm_remote))) = 5
   \<and> list_all (\<lambda>rq. rq_headers rq = [(''Authorization'', ''Bot '' @ ''t'')]
          \<and> (rq_url rq = global_url ''9'' \<or> (\<exists>i. rq_url rq = global_url ''9'' @ ''/'' @ i)
               \<or> rq_url rq = guild_url ''9'' ''123''
               \<or> (\<exists>i. rq_url rq = guild_url ''9'' ''123'' @ ''/'' @ i)))
        (requests_of (events (cleanup remote_step ''9'' ''123'' ''t'' calm_remote)))
   \<and> prompts_of (events
        (update_cmd remote_step (\<lambda>v. []) ''9'' ''t'' ''123'' ''gamma'' calm_remote)) = []"
proof -
  have "length (requests_of (events (cleanup remote_step ''9'' ''123'' ''t'' calm_remote))) = 5"
    by code_simp
  moreover note which_scripts_prompt
    [of remote_step "''9''" "''t''" calm_remote "''123''" "\<lambda>v. []" "''gamma''"]
  ultimately show ?thesis
    unfolding list_all_iff by blast
qed

text \<open>
  Claim C6, as stated, fails: \<^verbatim>\<open>update_cmd.py\<close> sends its requests, token included,
  without having prompted for anything.
\<close>

theorem update_cmd_prompts_for_nothing:
  "prompts_of (events (update_cmd remote_step (\<lambda>v. []) ''9'' ''t'' ''123'' ''gamma'' calm_remote)) = []
   \<and> map (\<lambda>rq. (rq_verb rq, rq_headers rq))
       (requests_of (events (update_cmd remote_step (\<lambda>v. []) ''9'' ''t'' ''123'' ''gamma'' calm_remote)))
     = [(GET, [(''Authorization'', ''Bot t'')]), (PATCH, [(''Authorization'', ''Bot t'')])]"
  by code_simp



subsection \<open>The remote service, step by step\<close>

lemma has_id_text: "has_id i cmd \<longleftrightarrow> id_text cmd = Some i"
  by (simp add: has_id_def id_text_Some)

lemma strip_prefix_same: "strip_prefix (p @ q) (p @ x) = strip_prefix q x"
  by (induction p) simp_all

lemma locate_single: "locate [(url, cmds)] (url @ ''/'' @ i) = Some (url, i)"
  using strip_prefix_append [of "url @ ''/''" i] by simp

lemma cleanup_delete_replied:
  assumes "srv s (delete_request url headers i) = (Reply rr, s')" "id_text cmd = Some i"
  shows "cleanup_delete srv url headers cmd s
           = (Inr (), [Http (delete_request url headers i) (Reply rr)], s')"
  using assms
  by (simp add: cleanup_delete_def seq_def eval_def call_def skip_def id_text_Some
      delete_request_def)

lemma delete_cmd_replied:
  assumes "srv s (delete_request url headers i) = (Reply rr, s')" "id_text cmd = Some i"
    "py_getitem cmd ''name'' = Inr name"
  shows "delete_cmd srv url headers cmd s
           = (Inr (),
              [Print [Lit ''Deleting command: '', Str name],
               Http (delete_request url headers i) (Reply rr)], s')"
  using assms
  by (simp add: delete_cmd_def seq_def eval_def call_def skip_def emit_def id_text_Some
      delete_request_def)

lemma remote_get:
  assumes "bot_token r = token" "rivals r = [] # later" "map_of (registry r) url = Some cmds"
  shows "remote_step r (get_request url (auth token))
           = (Reply \<lparr>status = 200, content = Json (JArr cmds)\<rparr>, r\<lparr>rivals := later\<rparr>)"
  using assms
  by (simp add: remote_step_def meddle_def serve_def get_request_def auth_def Let_def)


lemma serve_delete_single:
  assumes "registry r = [(url, cmds)]"
  shows "serve r (delete_request url headers i)
     = (case find (has_id i) cmds of
          None \<Rightarrow> (Reply (problem 404 ''Unknown application command''), r)
        | Some cmd \<Rightarrow> (Reply \<lparr>status = 204, content = Raw []\<rparr>,
                        r\<lparr>registry := [(url, without_id i cmds)]\<rparr>))"
proof -
  have l: "locate (registry r) (rq_url (delete_request url headers i)) = Some (url, i)"
    using locate_single [of url cmds i] assms by (simp add: delete_request_def)
  have c: "commands_in r url = cmds"
    using assms by (simp add: commands_in_def)
  have v: "rq_verb (delete_request url headers i) = DELETE"
    by (simp add: delete_request_def)
  have a: "amend url (without_id i) (registry r) = [(url, without_id i cmds)]"
    using assms by simp
  show ?thesis
    unfolding serve_def v l by (simp add: c a split: option.splits)
qed

lemma authorised: "map_of (rq_headers (delete_request url (auth token) i)) ''Authorization''
      = Some (''Bot '' @ token)"
  by (simp add: delete_request_def auth_def)

lemma remote_delete_single:
  assumes "bot_token r = token" "registry r = [(url, cmds)]" "find (has_id i) cmds = Some cmd"
    "rivals r = [] # later"
  shows "remote_step r (delete_request url (auth token) i)
           = (Reply \<lparr>status = 204, content = Raw []\<rparr>,
              r\<lparr>registry := [(url, without_id i cmds)], rivals := later\<rparr>)"
proof -
  have m: "meddle r = r\<lparr>rivals := later\<rparr>"
    using assms(4) by (simp add: meddle_def)
  have s: "serve (r\<lparr>rivals := later\<rparr>) (delete_request url (auth token) i)
      = (Reply \<lparr>status = 204, content = Raw []\<rparr>,
              r\<lparr>registry := [(url, without_id i cmds)], rivals := later\<rparr>)"
    using assms(2,3) by (simp add: serve_delete_single [where cmds = cmds])
  show ?thesis
    unfolding remote_step_def Let_def m using assms(1) by (simp add: authorised s)
qed

lemma remote_delete_single_quiet:
  assumes "bot_token r = token" "registry r = [(url, cmds)]" "find (has_id i) cmds = Some cmd"
    "rivals r = []"
  shows "remote_step r (delete_request url (auth token) i)
           = (Reply \<lparr>status = 204, content = Raw []\<rparr>,
              r\<lparr>registry := [(url, without_id i cmds)]\<rparr>)"
proof -
  have m: "meddle r = r"
    using assms(4) by (simp add: meddle_def)
  have s: "serve r (delete_request url (auth token) i)
      = (Reply \<lparr>status = 204, content = Raw []\<rparr>, r\<lparr>registry := [(url, without_id i cmds)]\<rparr>)"
    using assms(2,3) by (simp add: serve_delete_single [where cmds = cmds])
  show ?thesis
    unfolding remote_step_def Let_def m using assms(1) by (simp add: authorised s)
qed

lemma remote_delete_gone:
  assumes "bot_token r = token" "registry r = [(url, cmds)]" "rivals r = [(url, i)] # later"
  shows "remote_step r (delete_request url (auth token) i)
           = (Reply (problem 404 ''Unknown application command''),
              r\<lparr>registry := [(url, without_id i cmds)], rivals := later\<rparr>)"
proof -
  have m: "meddle r = r\<lparr>registry := [(url, without_id i cmds)], rivals := later\<rparr>"
    using assms(2,3) by (simp add: meddle_def)
  have f: "find (has_id i) (without_id i cmds) = None"
    by (simp add: without_id_def find_None_iff)
  have s: "serve (r\<lparr>registry := [(url, without_id i cmds)], rivals := later\<rparr>)
        (delete_request url (auth token) i)
      = (Reply (problem 404 ''Unknown application command''),
         r\<lparr>registry := [(url, without_id i cmds)], rivals := later\<rparr>)"
    using f by (simp add: serve_delete_single [where cmds = "without_id i cmds"])
  show ?thesis
    unfolding remote_step_def Let_def m using assms(1) by (simp add: authorised s)
qed



subsection \<open>Three commands, the second removed by somebody else meanwhile\<close>

lemma run_triple:
  "outcome (a, evs, s) = a" "events (a, evs, s) = evs" "final (a, evs, s) = s"
  by (simp_all add: outcome_def events_def final_def)

lemma raced_cleanup_run:
  assumes ids: "id_text c1 = Some i1" "id_text c2 = Some i2" "id_text c3 = Some i3"
      "distinct [i1, i2, i3]"
    and r: "r = \<lparr>bot_token = token, registry = [(url, [c1, c2, c3])], next_id = n,
                 rivals = [[], [], [(url, i2)]]\<rparr>"
  shows "cleanup_remove remote_step label url (auth token) r
     = (Inr (),
        [Http (get_request url (auth token)) (Reply \<lparr>status = 200, content = Json (JArr [c1, c2, c3])\<rparr>),
         Print [Lit label, Len 3],
         Http (delete_request url (auth token) i1) (Reply \<lparr>status = 204, content = Raw []\<rparr>),
         Http (delete_request url (auth token) i2) (Reply (problem 404 ''Unknown application command'')),
         Http (delete_request url (auth token) i3) (Reply \<lparr>status = 204, content = Raw []\<rparr>)],
        \<lparr>bot_token = token, registry = [(url, [])], next_id = n, rivals = []\<rparr>)"
proof -
  let ?h = "auth token"
  let ?r1 = "\<lparr>bot_token = token, registry = [(url, [c1, c2, c3])], next_id = n,
              rivals = [[], [(url, i2)]]\<rparr>"
  let ?r2 = "\<lparr>bot_token = token, registry = [(url, [c2, c3])], next_id = n,
              rivals = [[(url, i2)]]\<rparr>"
  let ?r3 = "\<lparr>bot_token = token, registry = [(url, [c3])], next_id = n, rivals = []\<rparr>"
  let ?r4 = "\<lparr>bot_token = token, registry = [(url, [])], next_id = n, rivals = []\<rparr>"
  have w: "without_id i1 [c1, c2, c3] = [c2, c3]" "without_id i2 [c2, c3] = [c3]"
    "without_id i3 [c3] = []"
    using ids by (auto simp: without_id_def has_id_text)
  have f: "find (has_id i1) [c1, c2, c3] = Some c1" "find (has_id i3) [c3] = Some c3"
    using ids by (simp_all add: has_id_text)
  have g: "remote_step r (get_request url ?h)
      = (Reply \<lparr>status = 200, content = Json (JArr [c1, c2, c3])\<rparr>, ?r1)"
    using remote_get [of r token "[[], [(url, i2)]]" url "[c1, c2, c3]"] by (simp add: r)
  have d1: "remote_step ?r1 (delete_request url ?h i1)
      = (Reply \<lparr>status = 204, content = Raw []\<rparr>, ?r2)"
    using remote_delete_single [of ?r1 token url "[c1, c2, c3]" i1 c1 "[[(url, i2)]]"] f(1)
    by (simp add: w)
  have d2: "remote_step ?r2 (delete_request url ?h i2)
      = (Reply (problem 404 ''Unknown application command''), ?r3)"
    using remote_delete_gone [of ?r2 token url "[c2, c3]" i2 "[]"] by (simp add: w)
  have d3: "remote_step ?r3 (delete_request url ?h i3)
      = (Reply \<lparr>status = 204, content = Raw []\<rparr>, ?r4)"
    using remote_delete_single_quiet [of ?r3 token url "[c3]" i3 c3] f(2) by (simp add: w)
  have loop: "for_each (cleanup_delete remote_step url ?h) [c1, c2, c3] ?r1
      = (Inr (),
         [Http (delete_request url ?h i1) (Reply \<lparr>status = 204, content = Raw []\<rparr>),
          Http (delete_request url ?h i2) (Reply (problem 404 ''Unknown application command'')),
          Http (delete_request url ?h i3) (Reply \<lparr>status = 204, content = Raw []\<rparr>)], ?r4)"
    by (simp add: seq_def skip_def
        cleanup_delete_replied [where srv = remote_step, OF d1 ids(1)]
        cleanup_delete_replied [where srv = remote_step, OF d2 ids(2)]
        cleanup_delete_replied [where srv = remote_step, OF d3 ids(3)])
  have c: "content \<lparr>status = 200, content = Json (JArr [c1, c2, c3])\<rparr> = Json (JArr [c1, c2, c3])"
    by simp
  show ?thesis
    by (rule run_eqI)
      (simp_all only: cleanup_remove_listed [where srv = remote_step and s = r, OF g c] loop
        run_triple, simp)
qed

lemma raced_delete_run:
  assumes ids: "id_text c1 = Some i1" "id_text c2 = Some i2" "id_text c3 = Some i3"
      "distinct [i1, i2, i3]"
    and names: "py_getitem c1 ''name'' = Inr n1" "py_getitem c2 ''name'' = Inr n2"
      "py_getitem c3 ''name'' = Inr n3"
    and r: "r = \<lparr>bot_token = token, registry = [(url, [c1, c2, c3])], next_id = n,
                 rivals = [[], [], [(url, i2)]]\<rparr>"
  shows "delete_all remote_step label url (auth token) r
     = (Inr (),
        [Http (get_request url (auth token)) (Reply \<lparr>status = 200, content = Json (JArr [c1, c2, c3])\<rparr>),
         Print [Lit label, Len 3],
         Print [Lit ''Deleting command: '', Str n1],
         Http (delete_request url (auth token) i1) (Reply \<lparr>status = 204, content = Raw []\<rparr>),
         Print [Lit ''Deleting command: '', Str n2],
         Http (delete_request url (auth token) i2) (Reply (problem 404 ''Unknown application command'')),
         Print [Lit ''Deleting command: '', Str n3],
         Http (delete_request url (auth token) i3) (Reply \<lparr>status = 204, content = Raw []\<rparr>)],
        \<lparr>bot_token = token, registry = [(url, [])], next_id = n, rivals = []\<rparr>)"
proof -
  let ?h = "auth token"
  let ?r1 = "\<lparr>bot_token = token, registry = [(url, [c1, c2, c3])], next_id = n,
              rivals = [[], [(url, i2)]]\<rparr>"
  let ?r2 = "\<lparr>bot_token = token, registry = [(url, [c2, c3])], next_id = n,
              rivals = [[(url, i2)]]\<rparr>"
  let ?r3 = "\<lparr>bot_token = token, registry = [(url, [c3])], next_id = n, rivals = []\<rparr>"
  let ?r4 = "\<lparr>bot_token = token, registry = [(url, [])], next_id = n, rivals = []\<rparr>"
  have w: "without_id i1 [c1, c2, c3] = [c2, c3]" "without_id i2 [c2, c3] = [c3]"
    "without_id i3 [c3] = []"
    using ids by (auto simp: without_id_def has_id_text)
  have f: "find (has_id i1) [c1, c2, c3] = Some c1" "find (has_id i3) [c3] = Some c3"
    using ids by (simp_all add: has_id_text)
  have g: "remote_step r (get_request url ?h)
      = (Reply \<lparr>status = 200, content = Json (JArr [c1, c2, c3])\<rparr>, ?r1)"
    using remote_get [of r token "[[], [(url, i2)]]" url "[c1, c2, c3]"] by (simp add: r)
  have d1: "remote_step ?r1 (delete_request url ?h i1)
      = (Reply \<lparr>status = 204, content = Raw []\<rparr>, ?r2)"
    using remote_delete_single [of ?r1 token url "[c1, c2, c3]" i1 c1 "[[(url, i2)]]"] f(1)
    by (simp add: w)
  have d2: "remote_step ?r2 (delete_request url ?h i2)
      = (Reply (problem 404 ''Unknown application command''), ?r3)"
    using remote_delete_gone [of ?r2 token url "[c2, c3]" i2 "[]"] by (simp add: w)
  have d3: "remote_step ?r3 (delete_request url ?h i3)
      = (Reply \<lparr>status = 204, content = Raw []\<rparr>, ?r4)"
    using remote_delete_single_quiet [of ?r3 token url "[c3]" i3 c3] f(2) by (simp add: w)
  have loop: "for_each (delete_cmd remote_step url ?h) [c1, c2, c3] ?r1
      = (Inr (),
         [Print [Lit ''Deleting command: '', Str n1],
          Http (delete_request url ?h i1) (Reply \<lparr>status = 204, content = Raw []\<rparr>),
          Print [Lit ''Deleting command: '', Str n2],
          Http (delete_request url ?h i2) (Reply (problem 404 ''Unknown application command'')),
          Print [Lit ''Deleting command: '', Str n3],
          Http (delete_request url ?h i3) (Reply \<lparr>status = 204, content = Raw []\<rparr>)], ?r4)"
    by (simp add: seq_def skip_def
        delete_cmd_replied [where srv = remote_step, OF d1 ids(1) names(1)]
        delete_cmd_replied [where srv = remote_step, OF d2 ids(2) names(2)]
        delete_cmd_replied [where srv = remote_step, OF d3 ids(3) names(3)])
  have c: "content \<lparr>status = 200, content = Json (JArr [c1, c2, c3])\<rparr> = Json (JArr [c1, c2, c3])"
    by simp
  show ?thesis
    by (rule run_eqI)
      (simp_all only: delete_all_listed [where srv = remote_step and s = r, OF g c] loop
        run_triple, simp)
qed

lemma raced_counts:
  "delete_statuses
     [Http (get_request url h) (Reply \<lparr>status = 200, content = body\<rparr>), Print ps,
      Http (delete_request url h i1) (Reply \<lparr>status = 204, content = Raw []\<rparr>),
      Http (delete_request url h i2) (Reply (problem 404 msg)),
      Http (delete_request url h i3) (Reply \<lparr>status = 204, content = Raw []\<rparr>)] = [204, 404, 204]"
  "reply_kinds
     [Http (get_request url h) (Reply \<lparr>status = 200, content = body\<rparr>), Print ps,
      Http (delete_request url h i1) (Reply \<lparr>status = 204, content = Raw []\<rparr>),
      Http (delete_request url h i2) (Reply (problem 404 msg)),
      Http (delete_request url h i3) (Reply \<lparr>status = 204, content = Raw []\<rparr>)] = [NotFoundError]"
  "succeeded
     [Http (get_request url h) (Reply \<lparr>status = 200, content = body\<rparr>), Print ps,
      Http (delete_request url h i1) (Reply \<lparr>status = 204, content = Raw []\<rparr>),
      Http (delete_request url h i2) (Reply (problem 404 msg)),
      Http (delete_request url h i3) (Reply \<lparr>status = 204, content = Raw []\<rparr>)] = 2"
  "failed
     [Http (get_request url h) (Reply \<lparr>status = 200, content = body\<rparr>), Print ps,
      Http (delete_request url h i1) (Reply \<lparr>status = 204, content = Raw []\<rparr>),
      Http (delete_request url h i2) (Reply (problem 404 msg)),
      Http (delete_request url h i3) (Reply \<lparr>status = 204, content = Raw []\<rparr>)] = 1"
  by (simp_all add: get_request_def delete_request_def problem_def classify_def succeeded_def
      failed_def)

lemma raced_counts_printing:
  "delete_statuses
     [Http (get_request url h) (Reply \<lparr>status = 200, content = body\<rparr>), Print ps,
      Print p1, Http (delete_request url h i1) (Reply \<lparr>status = 204, content = Raw []\<rparr>),
      Print p2, Http (delete_request url h i2) (Reply (problem 404 msg)),
      Print p3, Http (delete_request url h i3) (Reply \<lparr>status = 204, content = Raw []\<rparr>)]
     = [204, 404, 204]"
  "reply_kinds
     [Http (get_request url h) (Reply \<lparr>status = 200, content = body\<rparr>), Print ps,
      Print p1, Http (delete_request url h i1) (Reply \<lparr>status = 204, content = Raw []\<rparr>),
      Print p2, Http (delete_request url h i2) (Reply (problem 404 msg)),
      Print p3, Http (delete_request url h i3) (Reply \<lparr>status = 204, content = Raw []\<rparr>)]
     = [NotFoundError]"
  "succeeded
     [Http (get_request url h) (Reply \<lparr>status = 200, content = body\<rparr>), Print ps,
      Print p1, Http (delete_request url h i1) (Reply \<lparr>status = 204, content = Raw []\<rparr>),
      Print p2, Http (delete_request url h i2) (Reply (problem 404 msg)),
      Print p3, Http (delete_request url h i3) (Reply \<lparr>status = 204, content = Raw []\<rparr>)] = 2"
  "failed
     [Http (get_request url h) (Reply \<lparr>status = 200, content = body\<rparr>), Print ps,
      Print p1, Http (delete_request url h i1) (Reply \<lparr>status = 204, content = Raw []\<rparr>),
      Print p2, Http (delete_request url h i2) (Reply (problem 404 msg)),
      Print p3, Http (delete_request url h i3) (Reply \<lparr>status = 204, content = Raw []\<rparr>)] = 1"
  by (simp_all add: get_request_def delete_request_def problem_def classify_def succeeded_def
      failed_def)

text \<open>
  Claim C2, as the code has it. The guild \<^verbatim>\<open>123\<close> holds exactly three commands, with ids
  that differ; after the list has been fetched and the first command deleted, somebody
  else removes the second one. The delete-all block of \<^verbatim>\<open>cleanup.py\<close> prints the count 3,
  the length of the list, and no other number; its three DELETEs are answered 204, 404
  (a NotFoundError) and 204, so two deletions succeeded and one failed; it ends normally;
  and the guild's list is empty afterwards, so it holds neither of the two commands whose
  DELETE succeeded. The block of \<^verbatim>\<open>delete_all_commands.py\<close> does the same when the
  commands have names.
\<close>

theorem raced_delete_all_prints_the_list_length:
  assumes "id_text c1 = Some i1" "id_text c2 = Some i2" "id_text c3 = Some i3"
    "distinct [i1, i2, i3]"
    and "r = \<lparr>bot_token = token, registry = [(guild_url app ''123'', [c1, c2, c3])],
              next_id = n, rivals = [[], [], [(guild_url app ''123'', i2)]]\<rparr>"
  shows "outcome (cleanup_remove remote_step ''Number of guilds commands: ''
            (guild_url app ''123'') (auth token) r) = Inr ()
     \<and> delete_statuses (events (cleanup_remove remote_step ''Number of guilds commands: ''
            (guild_url app ''123'') (auth token) r)) = [204, 404, 204]
     \<and> reply_kinds (events (cleanup_remove remote_step ''Number of guilds commands: ''
            (guild_url app ''123'') (auth token) r)) = [NotFoundError]
     \<and> succeeded (events (cleanup_remove remote_step ''Number of guilds commands: ''
            (guild_url app ''123'') (auth token) r)) = 2
     \<and> failed (events (cleanup_remove remote_step ''Number of guilds commands: ''
            (guild_url app ''123'') (auth token) r)) = 1
     \<and> printed_numbers (events (cleanup_remove remote_step ''Number of guilds commands: ''
            (guild_url app ''123'') (auth token) r)) = [3]
     \<and> listing (final (cleanup_remove remote_step ''Number of guilds commands: ''
            (guild_url app ''123'') (auth token) r)) (guild_url app ''123'') = Some []
     \<and> (py_getitem c1 ''name'' = Inr n1 \<and> py_getitem c2 ''name'' = Inr n2
          \<and> py_getitem c3 ''name'' = Inr n3 \<longrightarrow>
          outcome (delete_all remote_step ''Number of guilds commands: ''
            (guild_url app ''123'') (auth token) r) = Inr ()
          \<and> delete_statuses (events (delete_all remote_step ''Number of guilds commands: ''
                (guild_url app ''123'') (auth token) r)) = [204, 404, 204]
          \<and> reply_kinds (events (delete_all remote_step ''Number of guilds commands: ''
                (guild_url app ''123'') (auth token) r)) = [NotFoundError]
          \<and> succeeded (events (delete_all remote_step ''Number of guilds commands: ''
                (guild_url app ''123'') (auth token) r)) = 2
          \<and> failed (events (delete_all remote_step ''Number of guilds commands: ''
                (guild_url app ''123'') (auth token) r)) = 1
          \<and> printed_numbers (events (delete_all remote_step ''Number of guilds commands: ''
                (guild_url app ''123'') (auth token) r)) = [3]
          \<and> listing (final (delete_all remote_step ''Number of guilds commands: ''
                (guild_url app ''123'') (auth token) r)) (guild_url app ''123'') = Some [])"
proof -
  note a = raced_cleanup_run [OF assms, of "''Number of guilds commands: ''"]
  have b: "outcome (delete_all remote_step ''Number of guilds commands: ''
            (guild_url app ''123'') (auth token) r) = Inr ()
          \<and> delete_statuses (events (delete_all remote_step ''Number of guilds commands: ''
                (guild_url app ''123'') (auth token) r)) = [204, 404, 204]
          \<and> reply_kinds (events (delete_all remote_step ''Number of guilds commands: ''
                (guild_url app ''123'') (auth token) r)) = [NotFoundError]
          \<and> succeeded (events (delete_all remote_step ''Number of guilds commands: ''
                (guild_url app ''123'') (auth token) r)) = 2
          \<and> failed (events (delete_all remote_step ''Number of guilds commands: ''
                (guild_url app ''123'') (auth token) r)) = 1
          \<and> printed_numbers (events (delete_all remote_step ''Number of guilds commands: ''
                (guild_url app ''123'') (auth token) r)) = [3]
          \<and> listing (final (delete_all remote_step ''Number of guilds commands: ''
                (guild_url app ''123'') (auth token) r)) (guild_url app ''123'') = Some []"
    if "py_getitem c1 ''name'' = Inr n1" "py_getitem c2 ''name'' = Inr n2"
      "py_getitem c3 ''name'' = Inr n3"
    unfolding raced_delete_run [OF assms(1-4) that assms(5), of "''Number of guilds commands: ''"]
      run_triple raced_counts_printing
    by (simp add: printed_numbers_def listing_def)
  show ?thesis
    unfolding a run_triple raced_counts
    using b by (simp add: printed_numbers_def listing_def)
qed



theorem raced_delete_all_prints_the_list_length_witness:
  "id_text sample_a = Some ''1'' \<and> id_text sample_b = Some ''2'' \<and> id_text sample_c = Some ''3''
   \<and> distinct [''1'', ''2'', ''3'']
   \<and> delete_statuses (events (cleanup_remove remote_step ''Number of guilds commands: ''
          (guild_url ''9'' ''123'') (auth ''t'')
          \<lparr>bot_token = ''t'', registry = [(guild_url ''9'' ''123'', [sample_a, sample_b, sample_c])],
           next_id = 4, rivals = [[], [], [(guild_url ''9'' ''123'', ''2'')]]\<rparr>)) = [204, 404, 204]
   \<and> succeeded (events (cleanup_remove remote_step ''Number of guilds commands: ''
          (guild_url ''9'' ''123'') (auth ''t'')
          \<lparr>bot_token = ''t'', registry = [(guild_url ''9'' ''123'', [sample_a, sample_b, sample_c])],
           next_id = 4, rivals = [[], [], [(guild_url ''9'' ''123'', ''2'')]]\<rparr>)) = 2
   \<and> failed (events (cleanup_remove remote_step ''Number of guilds commands: ''
          (guild_url ''9'' ''123'') (auth ''t'')
          \<lparr>bot_token = ''t'', registry = [(guild_url ''9'' ''123'', [sample_a, sample_b, sample_c])],
           next_id = 4, rivals = [[], [], [(guild_url ''9'' ''123'', ''2'')]]\<rparr>)) = 1
   \<and> printed_numbers (events (cleanup_remove remote_step ''Number of guilds commands: ''
          (guild_url ''9'' ''123'') (auth ''t'')
          \<lparr>bot_token = ''t'', registry = [(guild_url ''9'' ''123'', [sample_a, sample_b, sample_c])],
           next_id = 4, rivals = [[], [], [(guild_url ''9'' ''123'', ''2'')]]\<rparr>)) = [3]
   \<and> listing (final (cleanup_remove remote_step ''Number of guilds commands: ''
          (guild_url ''9'' ''123'') (auth ''t'')
          \<lparr>bot_token = ''t'', registry = [(guild_url ''9'' ''123'', [sample_a, sample_b, sample_c])],
           next_id = 4, rivals = [[], [], [(guild_url ''9'' ''123'', ''2'')]]\<rparr>))
        (guild_url ''9'' ''123'') = Some []"
proof -
  have i: "id_text sample_a = Some ''1''" "id_text sample_b = Some ''2''"
    "id_text sample_c = Some ''3''"
    by code_simp+
  have d: "distinct [''1'', ''2'', ''3'']"
    by simp
  from raced_delete_all_prints_the_list_length [OF i d refl, where token = "''t''" and app = "''9''" and n = 4] i d
  show ?thesis by blast
qed

text \<open>
  Claim C2, as stated, fails: the result does not report 2 succeeded and 1 failed.
  \<^verbatim>\<open>cleanup.py\<close> runs on application \<^verbatim>\<open>9\<close> and guild \<^verbatim>\<open>123\<close>, whose three commands lose
  the second one to somebody else before its DELETE arrives. Two deletions succeed and
  one fails, but the numbers the script prints are 0 and 3, the lengths of the two lists
  it fetched.
\<close>

theorem cleanup_reports_three_not_two_and_one:
  "delete_statuses (events (cleanup remote_step ''9'' ''123'' ''t'' raced_remote)) = [204, 404, 204]
   \<and> succeeded (events (cleanup remote_step ''9'' ''123'' ''t'' raced_remote)) = 2
   \<and> failed (events (cleanup remote_step ''9'' ''123'' ''t'' raced_remote)) = 1
   \<and> printed_numbers (events (cleanup remote_step ''9'' ''123'' ''t'' raced_remote)) = [0, 3]
   \<and> \<not> reports_counts (events (cleanup remote_step ''9'' ''123'' ''t'' raced_remote))"
  by code_simp



subsection \<open>Registering on the remote service\<close>

lemma map_of_amend: "map_of (amend url f reg) url = map_option f (map_of reg url)"
  by (induction reg) auto

lemma remote_post:
  assumes "bot_token r = token" "rivals r = []" "map_of (registry r) url = Some cs"
    "map_of sent ''name'' = Some (JStr name)"
  shows "\<exists>rr r'. remote_step r (post_request url (auth token) (JObj sent)) = (Reply rr, r')
     \<and> bot_token r' = token \<and> rivals r' = []
     \<and> map_of (registry r') url
         = Some (without_name name cs @ [JObj ((''id'', JStr (digits (next_id r))) # sent)])
     \<and> next_id r' = Suc (next_id r)"
  using assms
  by (simp add: remote_step_def meddle_def serve_def post_request_def auth_def Let_def
      map_of_amend)

lemma post_print_replied:
  assumes "srv s (post_request url headers payload) = (Reply rr, s')"
  shows "post_print srv url headers payload label s
           = (Inr (),
              [Http (post_request url headers payload) (Reply rr),
               Print [Lit label, Lit '' '', Bytes (content rr)]], s')"
  using assms by (simp add: post_print_def seq_def call_def emit_def post_request_def)

lemma post_print_answered:
  assumes "always_answers srv"
  shows "outcome (post_print srv url headers payload label s) = Inr ()"
    and "requests_of (events (post_print srv url headers payload label s))
           = [post_request url headers payload]"
proof -
  obtain rr where "fst (srv s (post_request url headers payload)) = Reply rr"
    using call_answered [OF assms] by blast
  then have "srv s (post_request url headers payload)
      = (Reply rr, snd (srv s (post_request url headers payload)))"
    by (metis prod.collapse)
  from post_print_replied [where srv = srv and s = s, OF this]
  show "outcome (post_print srv url headers payload label s) = Inr ()"
    and "requests_of (events (post_print srv url headers payload label s))
           = [post_request url headers payload]"
    by (simp_all add: run_triple)
qed

lemma bootsrap_requests:
  assumes "always_answers srv"
  shows "requests_of (events (bootsrap srv app token s))
     = [post_request (global_url app) (auth token) bootsrap_json_bootstrap,
        post_request (global_url app) (auth token) bootsrap_json_registergame,
        post_request (global_url app) (auth token) bootsrap_json_spinupgame]"
  unfolding bootsrap_def Let_def events_input_seq events_getpass_seq requests_of.simps
  by (simp add: events_seq post_print_answered [OF assms])

lemma listed_with_id:
  assumes "map_of sent ''name'' = Some (JStr name)"
  shows "filter (has_name name) (without_name name cs @ [JObj ((''id'', v) # sent)])
           = [JObj ((''id'', v) # sent)]"
    and "py_getitem (JObj ((''id'', v) # sent)) ''options'' = py_getitem (JObj sent) ''options''"
  using assms by (simp_all add: without_name_def has_name_def)

lemma bootsrap_registers_spinup:
  assumes "bot_token r = token" "rivals r = []" "listing r (global_url app) = Some before"
  shows "\<exists>after entry.
      listing (final (bootsrap remote_step app token r)) (global_url app) = Some after
      \<and> filter (has_name ''spinup'') after = [entry]
      \<and> py_getitem entry ''options'' = py_getitem bootsrap_json_spinupgame ''options''"
proof -
  obtain sb where sb: "bootsrap_json_bootstrap = JObj sb"
    "map_of sb ''name'' = Some (JStr ''bootstrap'')"
    by (simp add: bootsrap_json_bootstrap_def)
  obtain sg where sg: "bootsrap_json_registergame = JObj sg"
    "map_of sg ''name'' = Some (JStr ''register-game'')"
    by (simp add: bootsrap_json_registergame_def)
  obtain sp where sp: "bootsrap_json_spinupgame = JObj sp"
    "map_of sp ''name'' = Some (JStr ''spinup'')"
    by (simp add: bootsrap_json_spinupgame_def)
  let ?url = "global_url app"
  from assms(3) have l0: "map_of (registry r) ?url = Some before"
    by (simp add: listing_def)
  from remote_post [OF assms(1,2) l0 sb(2)] obtain rr1 r1 cs1 where
    p1: "remote_step r (post_request ?url (auth token) bootsrap_json_bootstrap) = (Reply rr1, r1)"
    and r1: "bot_token r1 = token" "rivals r1 = []" "map_of (registry r1) ?url = Some cs1"
    unfolding sb(1) by blast
  from remote_post [OF r1 sg(2)] obtain rr2 r2 cs2 where
    p2: "remote_step r1 (post_request ?url (auth token) bootsrap_json_registergame) = (Reply rr2, r2)"
    and r2: "bot_token r2 = token" "rivals r2 = []" "map_of (registry r2) ?url = Some cs2"
    unfolding sg(1) by blast
  from remote_post [OF r2 sp(2)] obtain rr3 r3 where
    p3: "remote_step r2 (post_request ?url (auth token) bootsrap_json_spinupgame) = (Reply rr3, r3)"
    and r3: "map_of (registry r3) ?url
        = Some (without_name ''spinup'' cs2 @ [JObj ((''id'', JStr (digits (next_id r2))) # sp)])"
    unfolding sp(1) by blast
  have "final (bootsrap remote_step app token r) = r3"
    by (simp add: bootsrap_def Let_def final_seq outcome_seq
        post_print_replied [where srv = remote_step, OF p1]
        post_print_replied [where srv = remote_step, OF p2]
        post_print_replied [where srv = remote_step, OF p3] run_triple)
  then have "listing (final (bootsrap remote_step app token r)) ?url
      = Some (without_name ''spinup'' cs2 @ [JObj ((''id'', JStr (digits (next_id r2))) # sp)])"
    by (simp add: listing_def r3)
  with listed_with_id(1) [OF sp(2), of cs2 "JStr (digits (next_id r2))"]
    listed_with_id(2) [OF sp(2), of "JStr (digits (next_id r2))"] show ?thesis
    unfolding sp(1) by blast
qed

text \<open>
  Claim C9. The payload \<^verbatim>\<open>bootsrap.py\<close> builds for the command named \<^verbatim>\<open>spinup\<close> has
  exactly one option: its name is \<^verbatim>\<open>game-type\<close>, its type is 3, the string option type,
  and it is required. The script POSTs this payload, its third request, on the URL of the
  global scope. When the remote service accepts the script's token and nobody else meddles,
  the global list afterwards holds exactly one entry named \<^verbatim>\<open>spinup\<close>, and that entry has
  the payload's options.
\<close>

theorem spinup_is_registered_with_its_required_option:
  "py_getitem bootsrap_json_spinupgame ''name'' = Inr (JStr ''spinup'')
   \<and> py_getitem bootsrap_json_spinupgame ''options''
       = Inr (JArr [JObj [(''type'', JInt OPT_STRING), (''name'', JStr ''game-type''),
                          (''description'', JStr ''Game type to start''),
                          (''required'', JBool True)]])
   \<and> (always_answers srv \<longrightarrow>
        requests_of (events (bootsrap srv app token s))
          = [post_request (global_url app) (auth token) bootsrap_json_bootstrap,
             post_request (global_url app) (auth token) bootsrap_json_registergame,
             post_request (global_url app) (auth token) bootsrap_json_spinupgame])
   \<and> (bot_token r = token \<and> rivals r = [] \<and> listing r (global_url app) = Some before \<longrightarrow>
        (\<exists>after entry.
           listing (final (bootsrap remote_step app token r)) (global_url app) = Some after
           \<and> filter (has_name ''spinup'') after = [entry]
           \<and> py_getitem entry ''options'' = py_getitem bootsrap_json_spinupgame ''options''))"
proof -
  have "py_getitem bootsrap_json_spinupgame ''name'' = Inr (JStr ''spinup'')"
    by (simp add: bootsrap_json_spinupgame_def)
  moreover have "py_getitem bootsrap_json_spinupgame ''options''
       = Inr (JArr [JObj [(''type'', JInt OPT_STRING), (''name'', JStr ''game-type''),
                          (''description'', JStr ''Game type to start''),
                          (''required'', JBool True)]])"
    by (simp add: bootsrap_json_spinupgame_def OPT_STRING_def)
  ultimately show ?thesis
    using bootsrap_requests [of srv app token s] bootsrap_registers_spinup [of r token app before]
    by blast
qed

theorem spinup_is_registered_with_its_required_option_witness:
  "always_answers remote_step
   \<and> bot_token calm_remote = ''t'' \<and> rivals calm_remote = []
   \<and> listing calm_remote (global_url ''9'') = Some [sample_a]
   \<and> map rq_json (requests_of (events (bootsrap remote_step ''9'' ''t'' calm_remote)))
       = [Some bootsrap_json_bootstrap, Some bootsrap_json_registergame, Some bootsrap_json_spinupgame]
   \<and> (case listing (final (bootsrap remote_step ''9'' ''t'' calm_remote)) (global_url ''9'') of
         None \<Rightarrow> []
       | Some after \<Rightarrow> filter (has_name ''spinup'') after)
       = [JObj ((''id'', JStr ''6'') # fields_of bootsrap_json_spinupgame)]
   \<and> (\<exists>after entry.
         listing (final (bootsrap remote_step ''9'' ''t'' calm_remote)) (global_url ''9'') = Some after
         \<and> filter (has_name ''spinup'') after = [entry]
         \<and> py_getitem entry ''options'' = py_getitem bootsrap_json_spinupgame ''options'')"
proof -
  have a: "bot_token calm_remote = ''t''" "rivals calm_remote = []"
    "listing calm_remote (global_url ''9'') = Some [sample_a]"
    by code_simp+
  have b: "map rq_json (requests_of (events (bootsrap remote_step ''9'' ''t'' calm_remote)))
       = [Some bootsrap_json_bootstrap, Some bootsrap_json_registergame, Some bootsrap_json_spinupgame]"
    by code_simp
  have c: "(case listing (final (bootsrap remote_step ''9'' ''t'' calm_remote)) (global_url ''9'') of
         None \<Rightarrow> []
       | Some after \<Rightarrow> filter (has_name ''spinup'') after)
       = [JObj ((''id'', JStr ''6'') # fields_of bootsrap_json_spinupgame)]"
    by code_simp
  from spinup_is_registered_with_its_required_option
    [of remote_step "''9''" "''t''" calm_remote calm_remote "[sample_a]"]
    remote_always_answers a b c
  show ?thesis by blast
qed

end
